theory Spec2Isabelle
  imports Main "HOL-Library.Sublist"
begin

section \<open>Data model of the dashboard (src/src/pages/Index.tsx)\<close>

text \<open>
  The component \<open>Index\<close> keeps its state in React hooks and talks to three external
  services: the backend table (through the client library), the object storage bucket and
  the automation webhooks. The embedding makes the state a record, every handler a function
  from the state to the new state, and everything a handler does to the outside (a request
  sent, a toast shown, a confirmation dialog opened) an event of a trace, in program order.
  The answers of the outside are the fields of a record \<open>World\<close>; a handler reads the answer
  to exactly the request it sends. The client library is part of the outside: its constructor
  \<open>createClient\<close> either returns a client or throws, as the world says.

  An exception is a value: \<open>Inl\<close> of its message. A handler whose exception nothing catches
  is an \<open>async\<close> function whose promise is rejected; it stops there, and the trace records
  the rejection.

  The views \<open>DashboardView\<close>, \<open>CreateVideoView\<close> and \<open>SettingsView\<close> are functions
  declared inside \<open>Index\<close>, so every new rendering of \<open>Index\<close> mounts them afresh and
  their own hooks start again. A handler of a view reads the hooks of the instance that
  rendered it, and they are its argument here; what it does to them is returned as the list
  of setter calls it makes, not as a new form, since the form on the screen afterwards is
  that of another instance.

  JavaScript strings are \<open>string\<close>; a string is falsy exactly when it is empty, and
  \<open>null\<close> is \<open>None\<close>. What the code does with them (emptiness, concatenation, the search
  for a fixed ASCII text) does not look at which characters they hold, with one exception:
  \<open>trim\<close>, whose white space reaches beyond the 8 bits of \<open>char\<close>. The two fields that
  the code trims are therefore lists of UTF-16 code units, \<open>ustring\<close>.
\<close>

type_synonym ustring = "nat list"

datatype View = Dashboard | Create | Settings

datatype TabType = Reels | Product | Ugc

datatype AspectRatio = Portrait | Landscape

text \<open>The interface \<open>VideoPost\<close>. The identifier is a string in the interface and a number
  in the table's row type, so its type is left open; the field \<open>id\<close> is named \<open>id'\<close>.\<close>

record 'i VideoPost =
  id' :: 'i
  video_url :: "string option"
  post_title :: string
  caption :: string
  hashtag :: "string option"
  youtube_post_status :: string
  instagram_post_status :: string
  facebook_post_status :: string

record AppSettings =
  supabaseUrl :: string
  supabaseKey :: string
  n8nGenerateWebhook :: string
  n8nPostWebhook :: string
  tableName :: string

text \<open>The two columns a row can be edited in: \<open>'post_title' | 'caption'\<close>.\<close>

datatype EditField = PostTitle | Caption

fun get_field :: "EditField \<Rightarrow> 'i VideoPost \<Rightarrow> string" where
  "get_field PostTitle v = post_title v"
| "get_field Caption v = caption v"

fun set_field :: "EditField \<Rightarrow> string \<Rightarrow> 'i VideoPost \<Rightarrow> 'i VideoPost" where
  "set_field PostTitle x v = v\<lparr>post_title := x\<rparr>"
| "set_field Caption x v = v\<lparr>caption := x\<rparr>"

text \<open>The hooks of \<open>Index\<close>: \<open>activeView\<close>, \<open>videos\<close>, \<open>loading\<close>, \<open>settings\<close>.\<close>

record 'i AppState =
  activeView :: View
  videos :: "'i VideoPost list"
  loading :: bool
  settings :: AppSettings

text \<open>A file chosen in the form: the two properties of \<open>File\<close> the code reads,
  \<open>name\<close> and \<open>type\<close>.\<close>

record File =
  fname :: string
  ftype :: string

text \<open>The payload \<open>handleSubmit\<close> of Index.tsx posts. The keys \<open>type\<close>, \<open>post_title\<close>
  and \<open>caption\<close> carry the prefix \<open>ad_\<close>, the other keys their own names.\<close>

record WebhookPayload =
  ad_type :: TabType
  ad_post_title :: string
  ad_caption :: string
  prompt_text :: string
  product_name :: "string option"
  product_description :: "string option"
  aspect_ratio :: AspectRatio
  file_url :: "string option"
  file_base64 :: "string option"
  file_name :: string
  file_type :: string
  timestamp :: string
  source :: string

text \<open>The payload of the URL-only variant of \<open>handleSubmit\<close> (src/unnamed/part_000): a key
  that the code never assigns is \<open>None\<close>.\<close>

record UrlPayload =
  url_type :: TabType
  url_prompt :: string
  url_aspect_ratio :: AspectRatio
  image_url :: "ustring option"
  url_product_name :: "string option"
  url_product_description :: "string option"
  product_image_url :: "ustring option"

datatype 'i Body =
    VideoJson "'i VideoPost"
  | AdJson WebhookPayload
  | AdUrlJson UrlPayload

text \<open>Requests that leave the browser.\<close>

datatype 'i Request =
    DbSelect string string bool
  | DbUpdate string EditField string 'i
  | DbDelete string 'i
  | StorageUpload string string File
  | FetchDataUrl string
  | HttpPost string "'i Body"

datatype NotificationType = SuccessToast | ErrorToast

datatype 'i Event =
    Notify NotificationType string
  | Call "'i Request"
  | ConfirmDialog string
  | LocalStorageRemove string
  | SetTimeout nat
  | UnhandledRejection string

text \<open>What the outside answers. \<open>createClient\<close> returns a client or throws (\<open>Inl\<close> of
  the message), for instance on a URL it does not accept. The client reports a failed table
  operation as an \<open>error\<close> object with a message; \<open>fetch\<close> either rejects or resolves to
  a response; an upload reports an error object or throws.\<close>

datatype 'a DbResult = DbError string | DbData 'a

record HttpResponse =
  status :: nat
  text_body :: string
  json_error :: "string option"

datatype FetchResult = Rejected string | Responded HttpResponse

datatype BlobResult = BlobRejected string | Blob string

datatype UploadResult = UploadOk | UploadError string | UploadThrew string

text \<open>A client handle: the URL and the key it was built from.\<close>

datatype SupabaseClient = Client string string

record 'i World =
  createClient :: "string \<Rightarrow> string \<Rightarrow> string + SupabaseClient"
  db_select :: "string \<Rightarrow> string \<Rightarrow> bool \<Rightarrow> 'i VideoPost list option DbResult"
  db_update :: "string \<Rightarrow> EditField \<Rightarrow> string \<Rightarrow> 'i \<Rightarrow> string option"
  db_delete :: "string \<Rightarrow> 'i \<Rightarrow> string option"
  confirm_answer :: bool
  fetch :: "string \<Rightarrow> 'i Body \<Rightarrow> FetchResult"
  fetch_data_url :: "string \<Rightarrow> BlobResult"
  storage_upload :: "string \<Rightarrow> string \<Rightarrow> File \<Rightarrow> UploadResult"
  getPublicUrl :: "string \<Rightarrow> string \<Rightarrow> string"
  date_now :: nat
  date_iso :: string

text \<open>\<open>response.ok\<close> of the Fetch API: the status is in the range 200 to 299.\<close>

definition ok :: "HttpResponse \<Rightarrow> bool" where
  "ok r = (200 \<le> status r \<and> status r \<le> 299)"

definition calls :: "'i Event list \<Rightarrow> 'i Request list" where
  "calls tr = concat (map (\<lambda>e. case e of Call r \<Rightarrow> [r] | _ \<Rightarrow> []) tr)"

definition dialogs :: "'i Event list \<Rightarrow> string list" where
  "dialogs tr = concat (map (\<lambda>e. case e of ConfirmDialog q \<Rightarrow> [q] | _ \<Rightarrow> []) tr)"

definition notifications :: "'i Event list \<Rightarrow> (NotificationType \<times> string) list" where
  "notifications tr = concat (map (\<lambda>e. case e of Notify t m \<Rightarrow> [(t, m)] | _ \<Rightarrow> []) tr)"

section \<open>JavaScript helpers\<close>

text \<open>\<open>a || b\<close> on strings.\<close>

definition js_or :: "string \<Rightarrow> string \<Rightarrow> string" where
  "js_or a b = (if a \<noteq> [] then a else b)"

text \<open>\<open>a || null\<close> on a string.\<close>

definition or_null :: "string \<Rightarrow> string option" where
  "or_null a = (if a \<noteq> [] then Some a else None)"

text \<open>Truthiness of a \<open>string | null\<close>.\<close>

fun truthy :: "string option \<Rightarrow> bool" where
  "truthy None = False"
| "truthy (Some s) = (s \<noteq> [])"

text \<open>A number inside a template string: its decimal digits.\<close>

definition digit_char :: "nat \<Rightarrow> char" where
  "digit_char d = char_of (48 + d)"

function string_of_nat :: "nat \<Rightarrow> string" where
  "string_of_nat n =
     (if n < 10 then [digit_char n] else string_of_nat (n div 10) @ [digit_char (n mod 10)])"
  by pat_completeness auto
termination
  by (relation "measure (\<lambda>n. n)") auto

declare string_of_nat.simps [simp del]

text \<open>\<open>name.split('.').pop()\<close>: what follows the last dot, the whole name when it has
  none.\<close>

definition split_pop :: "string \<Rightarrow> string" where
  "split_pop s = rev (takeWhile (\<lambda>c. c \<noteq> CHR ''.'') (rev s))"

text \<open>\<open>String.prototype.trim\<close> removes white space and line terminators from both ends:
  the code units of ECMAScript's \<open>WhiteSpace\<close> (tab, vertical tab, form feed, the
  zero-width no-break space U+FEFF and the space separators of Unicode) and
  \<open>LineTerminator\<close> (line feed, carriage return, U+2028, U+2029).\<close>

definition is_space :: "nat \<Rightarrow> bool" where
  "is_space c =
     (c \<in> set [0x09, 0x0A, 0x0B, 0x0C, 0x0D, 0x20, 0xA0, 0x1680,
                0x2000, 0x2001, 0x2002, 0x2003, 0x2004, 0x2005, 0x2006, 0x2007, 0x2008,
                0x2009, 0x200A, 0x2028, 0x2029, 0x202F, 0x205F, 0x3000, 0xFEFF])"

definition trim :: "ustring \<Rightarrow> ustring" where
  "trim s = rev (dropWhile is_space (rev (dropWhile is_space s)))"

definition tab_str :: "TabType \<Rightarrow> string" where
  "tab_str t = (case t of Reels \<Rightarrow> ''reels'' | Product \<Rightarrow> ''product'' | Ugc \<Rightarrow> ''ugc'')"

section \<open>Data client factory and video feed repository\<close>

text \<open>\<open>getSupabase\<close>, lines 40 to 43: \<open>null\<close> when the URL or the key is empty, otherwise
  what \<open>createClient\<close> returns; when \<open>createClient\<close> throws, so does \<open>getSupabase\<close>.\<close>

definition getSupabase :: "'i World \<Rightarrow> AppSettings \<Rightarrow> string + SupabaseClient option" where
  "getSupabase w s =
     (if supabaseUrl s = [] \<or> supabaseKey s = [] then Inr None
      else (case createClient w (supabaseUrl s) (supabaseKey s) of
              Inl msg \<Rightarrow> Inl msg
            | Inr client \<Rightarrow> Inr (Some client)))"

text \<open>\<open>fetchVideos\<close>, lines 53 to 84. \<open>getSupabase()\<close> is called before the \<open>try\<close>, so
  its exception rejects the promise with nothing else done. The query is \<open>select('*')\<close> on
  the configured table with \<open>order('id', {ascending: false})\<close>; the rows of the answer
  replace the feed as they come (\<open>data || []\<close>).\<close>

definition fetchVideos :: "'i World \<Rightarrow> 'i AppState \<Rightarrow> 'i AppState \<times> 'i Event list" where
  "fetchVideos w st =
     (case getSupabase w (settings st) of
        Inl thrown \<Rightarrow> (st, [UnhandledRejection thrown])
      | Inr None \<Rightarrow> (st, [Notify ErrorToast ''Please configure settings first''])
      | Inr (Some supabase) \<Rightarrow>
          (let tbl = tableName (settings st);
               call = Call (DbSelect tbl ''id'' False)
           in case db_select w tbl ''id'' False of
                DbError msg \<Rightarrow>
                  (st\<lparr>loading := False\<rparr>,
                   [call,
                    Notify ErrorToast
                      (''Database error: '' @ msg @ ''. Check table name '' @ [CHR 0x22] @ tbl
                         @ [CHR 0x22] @ '' and RLS policies.'')])
              | DbData data \<Rightarrow>
                  (let rows = (case data of None \<Rightarrow> [] | Some d \<Rightarrow> d)
                   in (st\<lparr>videos := rows, loading := False\<rparr>,
                       call #
                       (if data \<noteq> None \<and> length rows > 0
                        then [Notify SuccessToast
                                (''Loaded '' @ string_of_nat (length rows) @ '' video(s)'')]
                        else [])))))"

text \<open>\<open>updateVideoField\<close>, lines 124 to 142; \<open>getSupabase()\<close> is called before the
  \<open>try\<close>.\<close>

definition updateVideoField ::
  "'i World \<Rightarrow> 'i AppState \<Rightarrow> 'i \<Rightarrow> EditField \<Rightarrow> string \<Rightarrow> 'i AppState \<times> 'i Event list" where
  "updateVideoField w st videoId field val =
     (case getSupabase w (settings st) of
        Inl thrown \<Rightarrow> (st, [UnhandledRejection thrown])
      | Inr None \<Rightarrow> (st, [])
      | Inr (Some supabase) \<Rightarrow>
          (let tbl = tableName (settings st);
               call = Call (DbUpdate tbl field val videoId)
           in case db_update w tbl field val videoId of
                Some msg \<Rightarrow> (st, [call, Notify ErrorToast msg])
              | None \<Rightarrow>
                  (st\<lparr>videos :=
                        map (\<lambda>v. if id' v = videoId then set_field field val v else v)
                          (videos st)\<rparr>,
                   [call, Notify SuccessToast ''Updated successfully''])))"

text \<open>\<open>deleteVideo\<close>, lines 144 to 172; \<open>getSupabase()\<close> is called before the dialog and
  the \<open>try\<close>.\<close>

definition deleteVideo :: "'i World \<Rightarrow> 'i AppState \<Rightarrow> 'i \<Rightarrow> 'i AppState \<times> 'i Event list" where
  "deleteVideo w st videoId =
     (case getSupabase w (settings st) of
        Inl thrown \<Rightarrow> (st, [UnhandledRejection thrown])
      | Inr None \<Rightarrow> (st, [Notify ErrorToast ''Supabase not configured''])
      | Inr (Some supabase) \<Rightarrow>
          (let dialog = ConfirmDialog
                 ''Are you sure you want to delete this post? This action cannot be undone.''
           in if \<not> confirm_answer w then (st, [dialog])
              else
                (let tbl = tableName (settings st);
                     call = Call (DbDelete tbl videoId)
                 in case db_delete w tbl videoId of
                      Some msg \<Rightarrow> (st\<lparr>loading := False\<rparr>, [dialog, call, Notify ErrorToast msg])
                    | None \<Rightarrow>
                        (st\<lparr>videos := filter (\<lambda>v. id' v \<noteq> videoId) (videos st),
                            loading := False\<rparr>,
                         [dialog, call, Notify SuccessToast ''Post deleted successfully'']))))"

section \<open>Dashboard view: the edit buffer\<close>

text \<open>\<open>editingFields\<close> maps a row identifier to the edits typed so far; a key of the inner
  object that was never written is \<open>undefined\<close>, here \<open>None\<close>.\<close>

record EditBuffer =
  edit_post_title :: "string option"
  edit_caption :: "string option"

type_synonym 'i EditingFields = "'i \<Rightarrow> EditBuffer option"

fun get_edit :: "EditField \<Rightarrow> EditBuffer \<Rightarrow> string option" where
  "get_edit PostTitle b = edit_post_title b"
| "get_edit Caption b = edit_caption b"

fun set_edit :: "EditField \<Rightarrow> string \<Rightarrow> EditBuffer \<Rightarrow> EditBuffer" where
  "set_edit PostTitle x b = b\<lparr>edit_post_title := Some x\<rparr>"
| "set_edit Caption x b = b\<lparr>edit_caption := Some x\<rparr>"

text \<open>\<open>handleFieldChange\<close>, lines 252 to 260: the spread of a missing entry adds no key.\<close>

definition handleFieldChange ::
  "'i EditingFields \<Rightarrow> 'i \<Rightarrow> EditField \<Rightarrow> string \<Rightarrow> 'i EditingFields" where
  "handleFieldChange prev videoId field val =
     prev(videoId \<mapsto>
       set_edit field val
         (case prev videoId of
            None \<Rightarrow> \<lparr>edit_post_title = None, edit_caption = None\<rparr>
          | Some b \<Rightarrow> b))"

text \<open>\<open>handleFieldBlur\<close>, lines 262 to 269. \<open>editedValue\<close> is
  \<open>editingFields[videoId]?.[field]\<close>; \<open>videos.find\<close> is \<open>find\<close>: the first row with the
  identifier.\<close>

definition editedValue :: "'i EditingFields \<Rightarrow> 'i \<Rightarrow> EditField \<Rightarrow> string option" where
  "editedValue editingFields videoId field =
     (case editingFields videoId of None \<Rightarrow> None | Some b \<Rightarrow> get_edit field b)"

definition handleFieldBlur ::
  "'i World \<Rightarrow> 'i AppState \<Rightarrow> 'i EditingFields \<Rightarrow> 'i \<Rightarrow> EditField
     \<Rightarrow> 'i AppState \<times> 'i Event list" where
  "handleFieldBlur w st editingFields videoId field =
     (let edited = editedValue editingFields videoId field;
          currentVideo = find (\<lambda>v. id' v = videoId) (videos st)
      in case edited of
           None \<Rightarrow> (st, [])
         | Some e \<Rightarrow>
             (case currentVideo of
                None \<Rightarrow> (st, [])
              | Some v \<Rightarrow>
                  if e \<noteq> get_field field v then updateVideoField w st videoId field e
                  else (st, [])))"

section \<open>Webhook dispatcher\<close>

text \<open>\<open>handlePostToSocials\<close>, lines 97 to 122. It changes no hook, so only its trace is
  returned.\<close>

definition handlePostToSocials :: "'i World \<Rightarrow> 'i AppState \<Rightarrow> 'i VideoPost \<Rightarrow> 'i Event list" where
  "handlePostToSocials w st video =
     (let webhookUrl = js_or (n8nPostWebhook (settings st)) (n8nGenerateWebhook (settings st))
      in if webhookUrl = []
         then [Notify ErrorToast ''Please configure at least one n8n webhook in Settings'']
         else
           (let call = Call (HttpPost webhookUrl (VideoJson video))
            in case fetch w webhookUrl (VideoJson video) of
                 Rejected msg \<Rightarrow> [call, Notify ErrorToast msg]
               | Responded response \<Rightarrow>
                   if \<not> ok response then [call, Notify ErrorToast ''Failed to post to socials'']
                   else [call, Notify SuccessToast ''Posted to social media successfully!'']))"

section \<open>Create view\<close>

text \<open>The hooks of \<open>CreateVideoView\<close> as the handler reads them; \<open>imageUrl\<close> and
  \<open>productImageUrl\<close> exist in the URL-only variant and are ignored by the upload variant;
  the hook \<open>file\<close> is named \<open>file'\<close>.\<close>

record CreateForm =
  activeTab :: TabType
  prompt :: string
  file' :: "File option"
  filePreview :: "string option"
  productName :: string
  productDescription :: string
  aspectRatio :: AspectRatio
  imageUrl :: ustring
  productImageUrl :: ustring

text \<open>Lines 498 to 502 of \<open>handleSubmit\<close>: the storage key \<open>filePath\<close>, made of the
  tab, the clock and the extension of the file.\<close>

definition storageKey :: "'i World \<Rightarrow> TabType \<Rightarrow> File \<Rightarrow> string" where
  "storageKey w tab fileToUpload =
     (let timestamp = date_now w;
          fileExt = split_pop (fname fileToUpload);
          fileName = tab_str tab @ ''_'' @ string_of_nat timestamp @ ''.'' @ fileExt
      in ''ads/'' @ fileName)"

text \<open>Lines 504 to 527: the upload and the public URL. The result is the new value of
  \<open>fileUrl\<close> and the events.\<close>

definition uploadFile ::
  "'i World \<Rightarrow> TabType \<Rightarrow> File \<Rightarrow> string option \<times> 'i Event list" where
  "uploadFile w tab fileToUpload =
     (let filePath = storageKey w tab fileToUpload;
          call = Call (StorageUpload ''ad-files'' filePath fileToUpload)
      in case storage_upload w ''ad-files'' filePath fileToUpload of
           UploadError msg \<Rightarrow>
             (None,
              call #
              (if sublist ''Bucket not found'' msg
               then [Notify ErrorToast
                       (''Storage bucket '' @ [CHR 0x22] @ ''ad-files'' @ [CHR 0x22]
                          @ '' not found. Please run the SQL in supabase-storage-setup.sql file in your Supabase SQL Editor.'')]
               else []))
         | UploadThrew msg \<Rightarrow> (None, [call])
         | UploadOk \<Rightarrow> (Some (getPublicUrl w ''ad-files'' filePath), [call]))"

text \<open>Lines 476 to 533: the optional upload step. \<open>getSupabase()\<close> at line 479 is inside
  the outer \<open>try\<close> but before the inner one: its exception leaves the step (\<open>Inl\<close>) for the
  outer \<open>catch\<close>. Everything thrown from line 484 on is caught by the inner \<open>try\<close> and
  leaves \<open>fileUrl\<close> at \<open>null\<close>. The result is the value of \<open>fileUrl\<close> and the events.\<close>

definition uploadStep ::
  "'i World \<Rightarrow> AppSettings \<Rightarrow> CreateForm \<Rightarrow> string + (string option \<times> 'i Event list)" where
  "uploadStep w s fm =
     (if file' fm \<noteq> None \<or> truthy (filePreview fm) then
        (case getSupabase w s of
           Inl thrown \<Rightarrow> Inl thrown
         | Inr None \<Rightarrow> Inr (None, [])
         | Inr (Some supabase) \<Rightarrow>
             Inr (case file' fm of
                    Some f \<Rightarrow> uploadFile w (activeTab fm) f
                  | None \<Rightarrow>
                      (case filePreview fm of
                         None \<Rightarrow> (None, [])
                       | Some p \<Rightarrow>
                           if p = [] then (None, [])
                           else
                             (case fetch_data_url w p of
                                BlobRejected msg \<Rightarrow> (None, [Call (FetchDataUrl p)])
                              | Blob t \<Rightarrow>
                                  (let (u, evs) =
                                         uploadFile w (activeTab fm)
                                           \<lparr>fname = ''uploaded-file'', ftype = t\<rparr>
                                   in (u, Call (FetchDataUrl p) # evs))))))
      else Inr (None, []))"

text \<open>Lines 536 to 555: the payload.\<close>

definition buildPayload :: "'i World \<Rightarrow> CreateForm \<Rightarrow> string option \<Rightarrow> WebhookPayload" where
  "buildPayload w fm fileUrl =
     \<lparr>ad_type = activeTab fm,
      ad_post_title =
        (if activeTab fm = Reels then ''Update Product Image''
         else js_or (productName fm) ''Ad Campaign''),
      ad_caption = prompt fm,
      prompt_text = prompt fm,
      product_name = or_null (productName fm),
      product_description = or_null (productDescription fm),
      aspect_ratio = aspectRatio fm,
      file_url = fileUrl,
      file_base64 = (if \<not> truthy fileUrl \<and> truthy (filePreview fm) then filePreview fm else None),
      file_name =
        (case file' fm of None \<Rightarrow> ''uploaded-file'' | Some f \<Rightarrow> js_or (fname f) ''uploaded-file''),
      file_type =
        js_or (case file' fm of None \<Rightarrow> [] | Some f \<Rightarrow> ftype f)
          (if (case filePreview fm of None \<Rightarrow> False | Some p \<Rightarrow> prefix ''data:image'' p)
           then ''image/jpeg'' else ''application/octet-stream''),
      timestamp = date_iso w,
      source = ''adgen_studio''\<rparr>"

text \<open>The calls a handler makes to the setters of the form's hooks.\<close>

datatype FormSetter =
    SetPrompt string
  | SetProductName string
  | SetProductDescription string
  | SetImageUrl ustring
  | SetProductImageUrl ustring
  | SetFile "File option"
  | SetFilePreview "string option"

text \<open>Lines 559 to 594, shared by both variants up to the setters called and the timer: the
  one POST, the check of the status, the parse of the answer, the outer \<open>catch\<close> and
  \<open>finally\<close>. \<open>clear\<close> is the list of setter calls of the success branch, \<open>after\<close> the
  events that follow them.\<close>

definition dispatch ::
  "'i World \<Rightarrow> 'i AppState \<Rightarrow> string \<Rightarrow> 'i Body \<Rightarrow> FormSetter list \<Rightarrow> 'i Event list
     \<Rightarrow> 'i AppState \<times> FormSetter list \<times> 'i Event list" where
  "dispatch w st webhookUrl body clear after =
     (let call = Call (HttpPost webhookUrl body)
      in case fetch w webhookUrl body of
           Rejected msg \<Rightarrow> (st\<lparr>loading := False\<rparr>, [], [call, Notify ErrorToast (''Error: '' @ msg)])
         | Responded response \<Rightarrow>
             if \<not> ok response then
               (st\<lparr>loading := False\<rparr>, [],
                [call,
                 Notify ErrorToast
                   (''Error: '' @ ''Webhook failed ('' @ string_of_nat (status response) @ ''): ''
                      @ text_body response)])
             else
               (case json_error response of
                  Some msg \<Rightarrow>
                    (st\<lparr>loading := False\<rparr>, [], [call, Notify ErrorToast (''Error: '' @ msg)])
                | None \<Rightarrow>
                    (st\<lparr>loading := False\<rparr>, clear,
                     [call,
                      Notify SuccessToast
                        ''Video request submitted! Check dashboard in a few moments.'']
                     @ after)))"

text \<open>\<open>handleSubmit\<close> of Index.tsx, lines 463 to 595 (the upload variant): the new state of
  \<open>Index\<close>, the setter calls and the trace. An exception of the upload step is caught at
  line 589.\<close>

definition handleSubmit ::
  "'i World \<Rightarrow> 'i AppState \<Rightarrow> CreateForm \<Rightarrow> 'i AppState \<times> FormSetter list \<times> 'i Event list" where
  "handleSubmit w st fm =
     (let webhookUrl = js_or (n8nGenerateWebhook (settings st)) (n8nPostWebhook (settings st))
      in if webhookUrl = []
         then (st, [],
               [Notify ErrorToast ''Please configure at least one n8n webhook in Settings!''])
         else
           (case uploadStep w (settings st) fm of
              Inl thrown \<Rightarrow>
                (st\<lparr>loading := False\<rparr>, [], [Notify ErrorToast (''Error: '' @ thrown)])
            | Inr (fileUrl, upl) \<Rightarrow>
                (let webhookPayload = buildPayload w fm fileUrl;
                     (st', sets, evs) =
                       dispatch w st webhookUrl (AdJson webhookPayload)
                         [SetPrompt [], SetProductName [], SetProductDescription [],
                          SetFile None, SetFilePreview None]
                         [LocalStorageRemove ''createAdFormData'', SetTimeout 2000]
                 in (st', sets, upl @ evs))))"

text \<open>The payload of the URL-only variant, lines 485 to 501 of src/unnamed/part_000.\<close>

definition buildUrlPayload :: "CreateForm \<Rightarrow> UrlPayload" where
  "buildUrlPayload fm =
     (let base = \<lparr>url_type = activeTab fm, url_prompt = prompt fm,
                  url_aspect_ratio = aspectRatio fm, image_url = None,
                  url_product_name = None, url_product_description = None,
                  product_image_url = None\<rparr>
      in if activeTab fm = Reels then base\<lparr>image_url := Some (trim (imageUrl fm))\<rparr>
         else
           base\<lparr>url_product_name := Some (productName fm),
                url_product_description := Some (productDescription fm),
                product_image_url :=
                  (if trim (productImageUrl fm) \<noteq> [] then Some (trim (productImageUrl fm))
                   else None)\<rparr>)"

text \<open>\<open>handleSubmit\<close> of the URL-only variant, lines 466 to 538 of src/unnamed/part_000.\<close>

definition handleSubmitUrl ::
  "'i World \<Rightarrow> 'i AppState \<Rightarrow> CreateForm \<Rightarrow> 'i AppState \<times> FormSetter list \<times> 'i Event list" where
  "handleSubmitUrl w st fm =
     (let webhookUrl = js_or (n8nGenerateWebhook (settings st)) (n8nPostWebhook (settings st))
      in if webhookUrl = []
         then (st, [],
               [Notify ErrorToast ''Please configure at least one n8n webhook in Settings!''])
         else if activeTab fm = Reels \<and> trim (imageUrl fm) = []
         then (st, [], [Notify ErrorToast ''Please enter an image URL!''])
         else
           dispatch w st webhookUrl (AdUrlJson (buildUrlPayload fm))
             [SetPrompt [], SetProductName [], SetProductDescription [],
              SetImageUrl [], SetProductImageUrl [], SetFile None, SetFilePreview None]
             [LocalStorageRemove ''createAdFormData''])"

section \<open>The endpoint policy in the words of the specification\<close>

text \<open>The specification's preference with fallback, written down independently of the
  handlers, to compare them with: a publish action prefers the post endpoint, a creation
  action the generate endpoint, each falls back to the other, and there is no endpoint when
  both are blank.\<close>

definition spec_publish_endpoint :: "AppSettings \<Rightarrow> string option" where
  "spec_publish_endpoint s =
     (if n8nPostWebhook s \<noteq> [] then Some (n8nPostWebhook s)
      else if n8nGenerateWebhook s \<noteq> [] then Some (n8nGenerateWebhook s)
      else None)"

definition spec_creation_endpoint :: "AppSettings \<Rightarrow> string option" where
  "spec_creation_endpoint s =
     (if n8nGenerateWebhook s \<noteq> [] then Some (n8nGenerateWebhook s)
      else if n8nPostWebhook s \<noteq> [] then Some (n8nPostWebhook s)
      else None)"

text \<open>The webhook requests of a trace.\<close>

definition webhook_posts :: "'i Event list \<Rightarrow> (string \<times> 'i Body) list" where
  "webhook_posts tr =
     concat (map (\<lambda>e. case e of Call (HttpPost u b) \<Rightarrow> [(u, b)] | _ \<Rightarrow> []) tr)"


section \<open>Concrete inputs\<close>

definition demo_settings :: AppSettings where
  "demo_settings =
     \<lparr>supabaseUrl = ''https://db.example'', supabaseKey = ''anon'',
      n8nGenerateWebhook = ''https://hooks.example/generate'',
      n8nPostWebhook = ''https://hooks.example/post'',
      tableName = ''social_media_videos''\<rparr>"

definition demo_row :: "nat \<Rightarrow> string \<Rightarrow> string \<Rightarrow> nat VideoPost" where
  "demo_row i t c =
     \<lparr>id' = i, video_url = None, post_title = t, caption = c, hashtag = None,
      youtube_post_status = ''pending'', instagram_post_status = ''pending'',
      facebook_post_status = ''pending''\<rparr>"

text \<open>A row whose media is ready, as the publish button needs it.\<close>

definition demo_video :: "nat VideoPost" where
  "demo_video = (demo_row 1 ''first'' ''one'')\<lparr>video_url := Some ''https://cdn.example/first.mp4''\<rparr>"

definition demo_state :: "nat AppState" where
  "demo_state =
     \<lparr>activeView = Dashboard, videos = [demo_row 2 ''second'' ''two'', demo_row 1 ''first'' ''one''],
      loading = False, settings = demo_settings\<rparr>"

definition demo_response :: "nat \<Rightarrow> string \<Rightarrow> HttpResponse" where
  "demo_response code body = \<lparr>status = code, text_body = body, json_error = None\<rparr>"

text \<open>A world in which every service answers with success.\<close>

definition demo_world :: "nat World" where
  "demo_world =
     \<lparr>createClient = (\<lambda>url key. Inr (Client url key)),
      db_select = (\<lambda>tbl col asc. DbData (Some [demo_row 3 ''third'' ''three'', demo_row 1 ''first'' ''one''])),
      db_update = (\<lambda>tbl field val i. None),
      db_delete = (\<lambda>tbl i. None),
      confirm_answer = True,
      fetch = (\<lambda>url body. Responded (demo_response 200 ''{}'')),
      fetch_data_url = (\<lambda>p. Blob ''image/png''),
      storage_upload = (\<lambda>bucket path f. UploadOk),
      getPublicUrl = (\<lambda>bucket path. ''https://db.example/storage/v1/object/public/'' @ bucket @ ''/'' @ path),
      date_now = 1700,
      date_iso = ''2025-01-01T00:00:00.000Z''\<rparr>"

text \<open>A world whose client library refuses the URL \<open>not a url\<close>.\<close>

definition strict_world :: "nat World" where
  "strict_world =
     demo_world\<lparr>createClient :=
       (\<lambda>url key. if url = ''not a url''
                   then Inl ''Invalid supabaseUrl: Must be a valid HTTP or HTTPS URL.''
                   else Inr (Client url key))\<rparr>"

definition demo_form :: CreateForm where
  "demo_form =
     \<lparr>activeTab = Product, prompt = ''a red shoe'',
      file' = Some \<lparr>fname = ''shoe.final.png'', ftype = ''image/png''\<rparr>,
      filePreview = Some ''data:image/png;base64,AAAA'',
      productName = ''Shoe'', productDescription = [], aspectRatio = Portrait,
      imageUrl = [], productImageUrl = []\<rparr>"

section \<open>Properties\<close>

subsection \<open>Traces\<close>

lemma calls_simps [simp]:
  "calls [] = []"
  "calls (Call r # tr) = r # calls tr"
  "calls (Notify t m # tr) = calls tr"
  "calls (ConfirmDialog q # tr) = calls tr"
  "calls (LocalStorageRemove k # tr) = calls tr"
  "calls (SetTimeout n # tr) = calls tr"
  "calls (UnhandledRejection x # tr) = calls tr"
  by (simp_all add: calls_def)

lemma calls_append [simp]: "calls (xs @ ys) = calls xs @ calls ys"
  by (simp add: calls_def)

lemma notifications_simps [simp]:
  "notifications [] = []"
  "notifications (Notify t m # tr) = (t, m) # notifications tr"
  "notifications (Call r # tr) = notifications tr"
  "notifications (ConfirmDialog q # tr) = notifications tr"
  "notifications (LocalStorageRemove k # tr) = notifications tr"
  "notifications (SetTimeout n # tr) = notifications tr"
  "notifications (UnhandledRejection x # tr) = notifications tr"
  by (simp_all add: notifications_def)

lemma notifications_append [simp]:
  "notifications (xs @ ys) = notifications xs @ notifications ys"
  by (simp add: notifications_def)

subsection \<open>The client factory\<close>

lemma getSupabase_None_iff:
  "getSupabase w s = Inr None \<longleftrightarrow> supabaseUrl s = [] \<or> supabaseKey s = []"
  by (simp add: getSupabase_def split: sum.splits)

lemma fetchVideos_unconfigured:
  "getSupabase w (settings st) = Inr None \<Longrightarrow>
     fetchVideos w st = (st, [Notify ErrorToast ''Please configure settings first''])"
  by (simp add: fetchVideos_def)

lemma deleteVideo_unconfigured:
  "getSupabase w (settings st) = Inr None \<Longrightarrow>
     deleteVideo w st videoId = (st, [Notify ErrorToast ''Supabase not configured''])"
  by (simp add: deleteVideo_def)

lemma updateVideoField_unconfigured:
  "getSupabase w (settings st) = Inr None \<Longrightarrow> updateVideoField w st videoId field val = (st, [])"
  by (simp add: updateVideoField_def)

text \<open>Claim C1. With a blank endpoint or key every data operation should stop with a
  user-facing error and send nothing. \<open>getSupabase\<close> returns no client exactly when one of
  the two is blank, and none of the three operations sends a request then (the lemmas
  above); \<open>fetchVideos\<close> and \<open>deleteVideo\<close> show an error toast, but
  \<open>updateVideoField\<close> returns without any notification. Evaluated at the settings
  \<open>{endpoint: "", key: "x"}\<close> of the specification's example: the update of a title leaves the
  state as it is and shows nothing, where listing and deleting each show their error.\<close>

theorem updateVideoField_unconfigured_silent:
  "getSupabase demo_world (demo_settings\<lparr>supabaseUrl := [], supabaseKey := ''x''\<rparr>) = Inr None
   \<and> updateVideoField demo_world
         (demo_state\<lparr>settings := demo_settings\<lparr>supabaseUrl := [], supabaseKey := ''x''\<rparr>\<rparr>)
         1 PostTitle ''new''
       = (demo_state\<lparr>settings := demo_settings\<lparr>supabaseUrl := [], supabaseKey := ''x''\<rparr>\<rparr>, [])
   \<and> notifications (snd (updateVideoField demo_world
         (demo_state\<lparr>settings := demo_settings\<lparr>supabaseUrl := [], supabaseKey := ''x''\<rparr>\<rparr>)
         1 PostTitle ''new'')) = []
   \<and> notifications (snd (fetchVideos demo_world
         (demo_state\<lparr>settings := demo_settings\<lparr>supabaseUrl := [], supabaseKey := ''x''\<rparr>\<rparr>)))
       = [(ErrorToast, ''Please configure settings first'')]
   \<and> notifications (snd (deleteVideo demo_world
         (demo_state\<lparr>settings := demo_settings\<lparr>supabaseUrl := [], supabaseKey := ''x''\<rparr>\<rparr>) 1))
       = [(ErrorToast, ''Supabase not configured'')]"
  by (simp add: getSupabase_def updateVideoField_def fetchVideos_def deleteVideo_def
        demo_settings_def)

subsection \<open>Editing a field\<close>

lemma set_field_frame:
  "id' (set_field f x v) = id' v"
  "video_url (set_field f x v) = video_url v"
  "hashtag (set_field f x v) = hashtag v"
  "youtube_post_status (set_field f x v) = youtube_post_status v"
  "instagram_post_status (set_field f x v) = instagram_post_status v"
  "facebook_post_status (set_field f x v) = facebook_post_status v"
  "get_field g (set_field f x v) = (if g = f then x else get_field g v)"
  by (cases f; cases g; simp)+

lemma updateVideoField_accepted:
  assumes "getSupabase w (settings st) = Inr (Some c)"
    and "db_update w (tableName (settings st)) field val videoId = None"
  shows "updateVideoField w st videoId field val
           = (st\<lparr>videos := map (\<lambda>v. if id' v = videoId then set_field field val v else v)
                               (videos st)\<rparr>,
              [Call (DbUpdate (tableName (settings st)) field val videoId),
               Notify SuccessToast ''Updated successfully''])"
  using assms by (simp add: updateVideoField_def Let_def)

lemma updateVideoField_refused:
  assumes "getSupabase w (settings st) = Inr (Some c)"
    and "db_update w (tableName (settings st)) field val videoId = Some msg"
  shows "updateVideoField w st videoId field val
           = (st, [Call (DbUpdate (tableName (settings st)) field val videoId),
                   Notify ErrorToast msg])"
  using assms by (simp add: updateVideoField_def Let_def)

lemma updateVideoField_feed:
  "videos (fst (updateVideoField w st videoId field val)) \<noteq> videos st \<Longrightarrow>
     (\<exists>c. getSupabase w (settings st) = Inr (Some c))
     \<and> db_update w (tableName (settings st)) field val videoId = None"
  by (auto simp: updateVideoField_def Let_def split: sum.splits option.splits)

text \<open>Claim C4. An accepted update should patch the feed entry in place, only that field
  changed, and a failed update should leave the feed unchanged and surface the error. The
  code patches as claimed (\<open>updateVideoField_accepted\<close>, \<open>set_field_frame\<close>), changes the
  feed in no other case (\<open>updateVideoField_feed\<close>) and shows the backend's message when the
  backend refuses the request (\<open>updateVideoField_refused\<close>). But an update that fails because
  there is no client is not surfaced: with a blank key the update of a caption returns with
  the feed as it was and an empty trace, so no notification, where the same update refused
  by the backend shows the error. This is the early return that Claim C1 reports.\<close>

theorem updateVideoField_failure_not_surfaced:
  "getSupabase demo_world (demo_settings\<lparr>supabaseKey := []\<rparr>) = Inr None
   \<and> videos (fst (updateVideoField demo_world
         (demo_state\<lparr>settings := demo_settings\<lparr>supabaseKey := []\<rparr>\<rparr>) 2 Caption ''too''))
       = videos demo_state
   \<and> snd (updateVideoField demo_world
         (demo_state\<lparr>settings := demo_settings\<lparr>supabaseKey := []\<rparr>\<rparr>) 2 Caption ''too'') = []
   \<and> snd (updateVideoField (demo_world\<lparr>db_update := (\<lambda>tbl f x i. Some ''denied'')\<rparr>)
         demo_state 2 Caption ''too'')
       = [Call (DbUpdate ''social_media_videos'' Caption ''too'' 2), Notify ErrorToast ''denied'']"
  by (simp add: getSupabase_def updateVideoField_def demo_settings_def demo_state_def
        demo_world_def)

subsection \<open>Deleting a row\<close>

lemma dialogs_simps [simp]:
  "dialogs [] = []"
  "dialogs (ConfirmDialog q # tr) = q # dialogs tr"
  "dialogs (Call r # tr) = dialogs tr"
  "dialogs (Notify t m # tr) = dialogs tr"
  "dialogs (LocalStorageRemove k # tr) = dialogs tr"
  "dialogs (SetTimeout n # tr) = dialogs tr"
  "dialogs (UnhandledRejection x # tr) = dialogs tr"
  by (simp_all add: dialogs_def)

text \<open>Claim C5. \<open>deleteVideo\<close> sends nothing unless the user confirms: a declined dialog, or
  no dialog at all, sends no request and leaves the state as it is; a dialog answered with
  yes sends exactly one delete request for that identifier; and the row leaves the feed only
  when that request was sent and succeeded, the feed being the same otherwise.\<close>

theorem deleteVideo_confirmation:
  fixes w :: "'i World" and st :: "'i AppState"
  shows "(\<not> confirm_answer w \<longrightarrow>
            calls (snd (deleteVideo w st videoId)) = [] \<and> fst (deleteVideo w st videoId) = st)
       \<and> (dialogs (snd (deleteVideo w st videoId)) = [] \<longrightarrow>
            calls (snd (deleteVideo w st videoId)) = [] \<and> fst (deleteVideo w st videoId) = st)
       \<and> (dialogs (snd (deleteVideo w st videoId)) \<noteq> [] \<and> confirm_answer w \<longrightarrow>
            calls (snd (deleteVideo w st videoId))
              = [DbDelete (tableName (settings st)) videoId])
       \<and> videos (fst (deleteVideo w st videoId))
           = (if calls (snd (deleteVideo w st videoId)) \<noteq> []
                 \<and> db_delete w (tableName (settings st)) videoId = None
              then filter (\<lambda>v. id' v \<noteq> videoId) (videos st)
              else videos st)"
  by (auto simp: deleteVideo_def Let_def split: sum.splits option.splits)

theorem deleteVideo_confirmation_witness:
  "dialogs (snd (deleteVideo demo_world demo_state 1)) \<noteq> [] \<and> confirm_answer demo_world
   \<and> calls (snd (deleteVideo demo_world demo_state 1)) = [DbDelete ''social_media_videos'' 1]
   \<and> videos (fst (deleteVideo demo_world demo_state 1)) = [demo_row 2 ''second'' ''two'']
   \<and> \<not> confirm_answer (demo_world\<lparr>confirm_answer := False\<rparr>)
   \<and> calls (snd (deleteVideo (demo_world\<lparr>confirm_answer := False\<rparr>) demo_state 1)) = []
   \<and> fst (deleteVideo (demo_world\<lparr>confirm_answer := False\<rparr>) demo_state 1) = demo_state
   \<and> videos (fst (deleteVideo (demo_world\<lparr>db_delete := (\<lambda>tbl i. Some ''denied'')\<rparr>) demo_state 1))
       = videos demo_state"
proof -
  have cfg: "getSupabase demo_world (settings demo_state)
               = Inr (Some (Client ''https://db.example'' ''anon''))"
    by (simp add: getSupabase_def demo_state_def demo_settings_def demo_world_def)
  have c: "confirm_answer demo_world" by (simp add: demo_world_def)
  have d: "dialogs (snd (deleteVideo demo_world demo_state 1)) \<noteq> []"
    by (simp add: deleteVideo_def cfg c Let_def split: option.splits)
  have t: "tableName (settings demo_state) = ''social_media_videos''"
    by (simp add: demo_state_def demo_settings_def)
  have okd: "db_delete demo_world ''social_media_videos'' 1 = None"
    by (simp add: demo_world_def)
  note yes = deleteVideo_confirmation [of demo_world demo_state 1, unfolded t]
  note no = deleteVideo_confirmation [of "demo_world\<lparr>confirm_answer := False\<rparr>" demo_state 1]
  note bad = deleteVideo_confirmation
               [of "demo_world\<lparr>db_delete := (\<lambda>tbl i. Some ''denied'')\<rparr>" demo_state 1]
  from yes d c have c1: "calls (snd (deleteVideo demo_world demo_state 1))
      = [DbDelete ''social_media_videos'' 1]" by blast
  with yes okd have "videos (fst (deleteVideo demo_world demo_state 1))
      = filter (\<lambda>v. id' v \<noteq> 1) (videos demo_state)" by simp
  then have c2: "videos (fst (deleteVideo demo_world demo_state 1)) = [demo_row 2 ''second'' ''two'']"
    by (simp add: demo_state_def demo_row_def)
  from no have c3: "calls (snd (deleteVideo (demo_world\<lparr>confirm_answer := False\<rparr>) demo_state 1)) = []
    \<and> fst (deleteVideo (demo_world\<lparr>confirm_answer := False\<rparr>) demo_state 1) = demo_state"
    by simp
  from bad have c4: "videos (fst (deleteVideo (demo_world\<lparr>db_delete := (\<lambda>tbl i. Some ''denied'')\<rparr>) demo_state 1))
       = videos demo_state" by simp
  from d c c1 c2 c3 c4 show ?thesis by simp
qed

subsection \<open>Listing\<close>




text \<open>Claim C7. When the backend answers the list request with an error, \<open>fetchVideos\<close> shows
  exactly one error notification, whose message contains the configured table name, the
  hint to check the RLS (row-level security) policies and the backend's own message; the feed
  is unchanged.\<close>

theorem fetchVideos_backend_error:
  fixes w :: "'i World" and st :: "'i AppState"
  assumes "getSupabase w (settings st) = Inr (Some c)"
    and "db_select w (tableName (settings st)) ''id'' False = DbError msg"
  shows "\<exists>m. notifications (snd (fetchVideos w st)) = [(ErrorToast, m)]
           \<and> sublist (tableName (settings st)) m
           \<and> sublist ''RLS policies'' m
           \<and> sublist msg m
           \<and> videos (fst (fetchVideos w st)) = videos st"
proof -
  let ?tbl = "tableName (settings st)"
  let ?m = "''Database error: '' @ msg @ ''. Check table name '' @ [CHR 0x22] @ ?tbl
              @ [CHR 0x22] @ '' and RLS policies.''"
  have n: "notifications (snd (fetchVideos w st)) = [(ErrorToast, ?m)]"
    and v: "videos (fst (fetchVideos w st)) = videos st"
    using assms by (auto simp: fetchVideos_def Let_def)
  have "?m = (''Database error: '' @ msg @ ''. Check table name '' @ [CHR 0x22]) @ ?tbl
               @ ([CHR 0x22] @ '' and RLS policies.'')"
    by simp
  then have t: "sublist ?tbl ?m" unfolding sublist_def by blast
  have "?m = (''Database error: '' @ msg @ ''. Check table name '' @ [CHR 0x22] @ ?tbl
               @ [CHR 0x22] @ '' and '') @ ''RLS policies'' @ ''.''"
    by simp
  then have r: "sublist ''RLS policies'' ?m" unfolding sublist_def by blast
  have "?m = ''Database error: '' @ msg @ (''. Check table name '' @ [CHR 0x22] @ ?tbl
               @ [CHR 0x22] @ '' and RLS policies.'')"
    by simp
  then have e: "sublist msg ?m" unfolding sublist_def by blast
  from n v t r e show ?thesis by blast
qed

theorem fetchVideos_backend_error_witness:
  "getSupabase (demo_world\<lparr>db_select := (\<lambda>tbl col asc. DbError ''permission denied'')\<rparr>)
     (settings demo_state) = Inr (Some (Client ''https://db.example'' ''anon''))
   \<and> (\<exists>m. notifications (snd (fetchVideos
               (demo_world\<lparr>db_select := (\<lambda>tbl col asc. DbError ''permission denied'')\<rparr>)
               demo_state)) = [(ErrorToast, m)]
          \<and> sublist ''social_media_videos'' m \<and> sublist ''RLS policies'' m)"
proof -
  have h: "getSupabase (demo_world\<lparr>db_select := (\<lambda>tbl col asc. DbError ''permission denied'')\<rparr>)
             (settings demo_state) = Inr (Some (Client ''https://db.example'' ''anon''))"
    by (simp add: getSupabase_def demo_state_def demo_settings_def demo_world_def)
  have t: "tableName (settings demo_state) = ''social_media_videos''"
    by (simp add: demo_state_def demo_settings_def)
  have r: "db_select (demo_world\<lparr>db_select := (\<lambda>tbl col asc. DbError ''permission denied'')\<rparr>)
             (tableName (settings demo_state)) ''id'' False = DbError ''permission denied''"
    by simp
  from fetchVideos_backend_error [OF h r, unfolded t] h show ?thesis by blast
qed

subsection \<open>Leaving an edited field\<close>

lemma editedValue_handleFieldChange:
  "editedValue (handleFieldChange ef videoId field x) videoId field = Some x"
  by (cases field) (simp_all add: editedValue_def handleFieldChange_def)

text \<open>Claim C9. Leaving a title or caption field calls \<open>updateVideoField\<close> only when an
  edit is buffered for that row and field, the row is in the feed, and the edit differs from
  the row's current value; then it is that call, with the edited value. In every other case
  nothing happens: in particular, typing the row's current value and leaving the field sends
  no update request. A request sent by the blur handler is one update of that field with the
  buffered value.\<close>

theorem handleFieldBlur_guard:
  fixes w :: "'i World" and st :: "'i AppState"
  shows "(\<forall>e v. editedValue ef videoId field = Some e
                 \<and> find (\<lambda>v. id' v = videoId) (videos st) = Some v
                 \<and> e \<noteq> get_field field v
               \<longrightarrow> handleFieldBlur w st ef videoId field = updateVideoField w st videoId field e)
       \<and> (editedValue ef videoId field = None
            \<or> find (\<lambda>v. id' v = videoId) (videos st) = None
            \<or> (\<exists>v. find (\<lambda>v. id' v = videoId) (videos st) = Some v
                    \<and> editedValue ef videoId field = Some (get_field field v))
          \<longrightarrow> handleFieldBlur w st ef videoId field = (st, []))
       \<and> (\<forall>v. find (\<lambda>v. id' v = videoId) (videos st) = Some v
             \<longrightarrow> handleFieldBlur w st (handleFieldChange ef videoId field (get_field field v))
                    videoId field = (st, []))
       \<and> (calls (snd (handleFieldBlur w st ef videoId field)) \<noteq> []
            \<longrightarrow> (\<exists>e v. editedValue ef videoId field = Some e
                       \<and> find (\<lambda>v. id' v = videoId) (videos st) = Some v
                       \<and> e \<noteq> get_field field v
                       \<and> calls (snd (handleFieldBlur w st ef videoId field))
                           = [DbUpdate (tableName (settings st)) field e videoId]))"
proof (intro conjI allI impI)
  fix e v
  assume "editedValue ef videoId field = Some e
            \<and> find (\<lambda>v. id' v = videoId) (videos st) = Some v \<and> e \<noteq> get_field field v"
  then show "handleFieldBlur w st ef videoId field = updateVideoField w st videoId field e"
    by (simp add: handleFieldBlur_def)
next
  assume "editedValue ef videoId field = None
            \<or> find (\<lambda>v. id' v = videoId) (videos st) = None
            \<or> (\<exists>v. find (\<lambda>v. id' v = videoId) (videos st) = Some v
                    \<and> editedValue ef videoId field = Some (get_field field v))"
  then show "handleFieldBlur w st ef videoId field = (st, [])"
    by (auto simp: handleFieldBlur_def split: option.splits)
next
  fix v
  assume "find (\<lambda>v. id' v = videoId) (videos st) = Some v"
  then show "handleFieldBlur w st (handleFieldChange ef videoId field (get_field field v))
               videoId field = (st, [])"
    by (simp add: handleFieldBlur_def editedValue_handleFieldChange)
next
  assume c: "calls (snd (handleFieldBlur w st ef videoId field)) \<noteq> []"
  then obtain e where e: "editedValue ef videoId field = Some e"
    by (cases "editedValue ef videoId field") (auto simp: handleFieldBlur_def)
  with c obtain v where v: "find (\<lambda>v. id' v = videoId) (videos st) = Some v"
    by (cases "find (\<lambda>v. id' v = videoId) (videos st)") (auto simp: handleFieldBlur_def)
  from c e v have d: "e \<noteq> get_field field v"
    by (auto simp: handleFieldBlur_def)
  with e v have h: "handleFieldBlur w st ef videoId field = updateVideoField w st videoId field e"
    by (simp add: handleFieldBlur_def)
  with c have "calls (snd (handleFieldBlur w st ef videoId field))
                 = [DbUpdate (tableName (settings st)) field e videoId]"
    by (auto simp: updateVideoField_def Let_def split: sum.splits option.splits)
  with e v d
  show "\<exists>e v. editedValue ef videoId field = Some e
              \<and> find (\<lambda>v. id' v = videoId) (videos st) = Some v
              \<and> e \<noteq> get_field field v
              \<and> calls (snd (handleFieldBlur w st ef videoId field))
                  = [DbUpdate (tableName (settings st)) field e videoId]"
    by blast
qed

theorem handleFieldBlur_guard_witness:
  "find (\<lambda>v. id' v = 1) (videos demo_state) = Some (demo_row 1 ''first'' ''one'')
   \<and> handleFieldBlur demo_world demo_state
        (handleFieldChange Map.empty 1 PostTitle ''first'') 1 PostTitle = (demo_state, [])
   \<and> editedValue (handleFieldChange Map.empty 1 PostTitle ''First!'') 1 PostTitle = Some ''First!''
   \<and> ''First!'' \<noteq> get_field PostTitle (demo_row 1 ''first'' ''one'')
   \<and> calls (snd (handleFieldBlur demo_world demo_state
        (handleFieldChange Map.empty 1 PostTitle ''First!'') 1 PostTitle))
       = [DbUpdate ''social_media_videos'' PostTitle ''First!'' 1]
   \<and> handleFieldBlur demo_world demo_state Map.empty 1 PostTitle = (demo_state, [])"
proof -
  have f: "find (\<lambda>v. id' v = 1) (videos demo_state) = Some (demo_row 1 ''first'' ''one'')"
    by (simp add: demo_state_def demo_row_def)
  have g: "get_field PostTitle (demo_row 1 ''first'' ''one'') = ''first''"
    by (simp add: demo_row_def)
  have e: "editedValue (handleFieldChange Map.empty 1 PostTitle ''First!'') 1 PostTitle
             = Some ''First!''"
    by (simp add: editedValue_def handleFieldChange_def)
  have n: "editedValue (Map.empty :: nat EditingFields) 1 PostTitle = None"
    by (simp add: editedValue_def)
  have d: "''First!'' \<noteq> get_field PostTitle (demo_row 1 ''first'' ''one'')"
    by (simp add: demo_row_def)
  note same = handleFieldBlur_guard [of Map.empty 1 PostTitle demo_state demo_world]
  note changed = handleFieldBlur_guard
        [of "handleFieldChange Map.empty 1 PostTitle ''First!''" 1 PostTitle demo_state demo_world]
  from same f g have a: "handleFieldBlur demo_world demo_state
        (handleFieldChange Map.empty 1 PostTitle ''first'') 1 PostTitle = (demo_state, [])"
    by metis
  from same n have b: "handleFieldBlur demo_world demo_state Map.empty 1 PostTitle = (demo_state, [])"
    by blast
  from changed e f d have "handleFieldBlur demo_world demo_state
        (handleFieldChange Map.empty 1 PostTitle ''First!'') 1 PostTitle
        = updateVideoField demo_world demo_state 1 PostTitle ''First!''"
    by blast
  then have c: "calls (snd (handleFieldBlur demo_world demo_state
        (handleFieldChange Map.empty 1 PostTitle ''First!'') 1 PostTitle))
       = [DbUpdate ''social_media_videos'' PostTitle ''First!'' 1]"
    by (simp add: updateVideoField_def getSupabase_def demo_state_def demo_settings_def
          demo_world_def)
  from f a e d c b show ?thesis by blast
qed

subsection \<open>The upload step of a creation request\<close>

lemma webhook_posts_simps [simp]:
  "webhook_posts [] = []"
  "webhook_posts (Call (HttpPost u b) # tr) = (u, b) # webhook_posts tr"
  "webhook_posts (Call (DbSelect t c a) # tr) = webhook_posts tr"
  "webhook_posts (Call (DbUpdate t f x i) # tr) = webhook_posts tr"
  "webhook_posts (Call (DbDelete t i) # tr) = webhook_posts tr"
  "webhook_posts (Call (StorageUpload k p fl) # tr) = webhook_posts tr"
  "webhook_posts (Call (FetchDataUrl d) # tr) = webhook_posts tr"
  "webhook_posts (Notify n m # tr) = webhook_posts tr"
  "webhook_posts (ConfirmDialog q # tr) = webhook_posts tr"
  "webhook_posts (LocalStorageRemove k # tr) = webhook_posts tr"
  "webhook_posts (SetTimeout d' # tr) = webhook_posts tr"
  "webhook_posts (UnhandledRejection x' # tr) = webhook_posts tr"
  by (simp_all add: webhook_posts_def)

lemma webhook_posts_append [simp]:
  "webhook_posts (xs @ ys) = webhook_posts xs @ webhook_posts ys"
  by (simp add: webhook_posts_def)

lemma uploadFile_no_post: "webhook_posts (snd (uploadFile w tab f)) = []"
  by (simp add: uploadFile_def Let_def split: UploadResult.splits)

lemma uploadFile_no_success:
  "(SuccessToast, m) \<notin> set (notifications (snd (uploadFile w tab f)))"
  by (simp add: uploadFile_def Let_def split: UploadResult.splits)

lemma uploadFile_fails:
  "storage_upload w ''ad-files'' (storageKey w tab f) f \<noteq> UploadOk \<Longrightarrow>
     fst (uploadFile w tab f) = None"
  by (simp add: uploadFile_def Let_def split: UploadResult.splits)

lemma uploadFile_url:
  "fst (uploadFile w tab f) = Some x \<Longrightarrow> x = getPublicUrl w ''ad-files'' (storageKey w tab f)"
  by (simp add: uploadFile_def Let_def split: UploadResult.splits)

lemma uploadStep_threw_iff:
  "(\<exists>thrown. uploadStep w s fm = Inl thrown)
     \<longleftrightarrow> (file' fm \<noteq> None \<or> truthy (filePreview fm)) \<and> isl (getSupabase w s)"
  by (auto simp: uploadStep_def split: sum.splits option.splits)

lemma uploadStep_nothing:
  "file' fm = None \<Longrightarrow> \<not> truthy (filePreview fm) \<Longrightarrow> uploadStep w s fm = Inr (None, [])"
  by (simp add: uploadStep_def)

lemma uploadStep_null:
  "getSupabase w s = Inr None \<Longrightarrow> uploadStep w s fm = Inr (None, [])"
  by (simp add: uploadStep_def)

lemma uploadStep_file:
  "getSupabase w s = Inr (Some c) \<Longrightarrow> file' fm = Some f \<Longrightarrow>
     uploadStep w s fm = Inr (uploadFile w (activeTab fm) f)"
  by (simp add: uploadStep_def)

lemma uploadStep_preview_rejected:
  "getSupabase w s = Inr (Some c) \<Longrightarrow> file' fm = None \<Longrightarrow> filePreview fm = Some p \<Longrightarrow>
   p \<noteq> [] \<Longrightarrow> fetch_data_url w p = BlobRejected msg \<Longrightarrow>
     uploadStep w s fm = Inr (None, [Call (FetchDataUrl p)])"
  by (simp add: uploadStep_def)

lemma uploadStep_preview_blob:
  "getSupabase w s = Inr (Some c) \<Longrightarrow> file' fm = None \<Longrightarrow> filePreview fm = Some p \<Longrightarrow>
   p \<noteq> [] \<Longrightarrow> fetch_data_url w p = Blob t \<Longrightarrow>
     uploadStep w s fm
       = Inr (fst (uploadFile w (activeTab fm) \<lparr>fname = ''uploaded-file'', ftype = t\<rparr>),
              Call (FetchDataUrl p)
                # snd (uploadFile w (activeTab fm) \<lparr>fname = ''uploaded-file'', ftype = t\<rparr>))"
  by (simp add: uploadStep_def case_prod_beta)

lemma uploadStep_cases:
  assumes "uploadStep w s fm = Inr (url, upl)"
  shows "(url = None \<and> set upl \<subseteq> range (\<lambda>p. Call (FetchDataUrl p)))
         \<or> (\<exists>f pre. url = fst (uploadFile w (activeTab fm) f)
                  \<and> upl = pre @ snd (uploadFile w (activeTab fm) f)
                  \<and> set pre \<subseteq> range (\<lambda>p. Call (FetchDataUrl p)))"
proof (cases "getSupabase w s")
  case (Inl thrown)
  have "file' fm = None" and "\<not> truthy (filePreview fm)"
    using assms Inl by (auto simp: uploadStep_def split: if_splits)
  with assms have "url = None" and "upl = []" by (simp_all add: uploadStep_nothing)
  then show ?thesis by simp
next
  case (Inr client)
  show ?thesis
  proof (cases client)
    case None
    with Inr assms have "url = None" and "upl = []" by (simp_all add: uploadStep_null)
    then show ?thesis by simp
  next
    case c: (Some c)
    show ?thesis
    proof (cases "file' fm")
      case (Some f)
      with Inr c assms have "url = fst (uploadFile w (activeTab fm) f)"
        and "upl = [] @ snd (uploadFile w (activeTab fm) f)"
        by (simp_all add: uploadStep_file)
      then show ?thesis by (intro disjI2 exI [of _ f] exI [of _ "[]"]) simp
    next
      case nofile: None
      show ?thesis
      proof (cases "truthy (filePreview fm)")
        case False
        with nofile assms have "url = None" and "upl = []"
          by (simp_all add: uploadStep_nothing)
        then show ?thesis by simp
      next
        case True
        then obtain p where p: "filePreview fm = Some p" "p \<noteq> []"
          by (cases "filePreview fm") auto
        show ?thesis
        proof (cases "fetch_data_url w p")
          case (BlobRejected msg)
          with Inr c nofile p assms have "url = None" and "upl = [Call (FetchDataUrl p)]"
            by (simp_all add: uploadStep_preview_rejected)
          then show ?thesis by simp
        next
          case (Blob t)
          let ?f = "\<lparr>fname = ''uploaded-file'', ftype = t\<rparr>"
          from Inr c nofile p Blob assms
          have "url = fst (uploadFile w (activeTab fm) ?f)"
            and "upl = [Call (FetchDataUrl p)] @ snd (uploadFile w (activeTab fm) ?f)"
            by (simp_all add: uploadStep_preview_blob)
          then show ?thesis
            by (intro disjI2 exI [of _ ?f] exI [of _ "[Call (FetchDataUrl p)]"]) simp
        qed
      qed
    qed
  qed
qed

lemma data_fetches_no_post:
  "set pre \<subseteq> range (\<lambda>p. Call (FetchDataUrl p)) \<Longrightarrow> webhook_posts pre = []"
  by (induction pre) auto

lemma data_fetches_no_notification:
  "set pre \<subseteq> range (\<lambda>p. Call (FetchDataUrl p)) \<Longrightarrow> notifications pre = []"
  by (induction pre) auto

lemma uploadStep_no_post:
  assumes "uploadStep w s fm = Inr (url, upl)"
  shows "webhook_posts upl = []"
  using uploadStep_cases [OF assms]
  by (auto simp: data_fetches_no_post uploadFile_no_post)

lemma uploadStep_no_success:
  assumes "uploadStep w s fm = Inr (url, upl)"
  shows "(SuccessToast, m) \<notin> set (notifications upl)"
  using uploadStep_cases [OF assms]
  by (auto simp: data_fetches_no_notification uploadFile_no_success)

lemma uploadStep_url:
  assumes "uploadStep w s fm = Inr (Some x, upl)"
  shows "\<exists>path. x = getPublicUrl w ''ad-files'' path"
  using uploadStep_cases [OF assms] uploadFile_url [of w "activeTab fm" _ x] by auto

lemma uploadStep_request_fails:
  assumes "uploadStep w s fm = Inr (url, upl)"
    and "(\<forall>path f. storage_upload w ''ad-files'' path f \<noteq> UploadOk)
         \<or> (file' fm = None \<and> (\<forall>p t. fetch_data_url w p \<noteq> Blob t))"
  shows "url = None"
  using assms(2)
proof
  assume "\<forall>path f. storage_upload w ''ad-files'' path f \<noteq> UploadOk"
  then have "\<And>f. fst (uploadFile w (activeTab fm) f) = None"
    by (simp add: uploadFile_fails)
  with uploadStep_cases [OF assms(1)] show ?thesis by auto
next
  assume a: "file' fm = None \<and> (\<forall>p t. fetch_data_url w p \<noteq> Blob t)"
  show ?thesis
  proof (cases "getSupabase w s")
    case (Inl thrown)
    with assms(1) show ?thesis by (auto simp: uploadStep_def split: if_splits)
  next
    case (Inr client)
    show ?thesis
    proof (cases client)
      case None
      with Inr assms(1) show ?thesis by (simp add: uploadStep_null)
    next
      case (Some c)
      show ?thesis
      proof (cases "truthy (filePreview fm)")
        case False
        with a assms(1) show ?thesis by (simp add: uploadStep_nothing)
      next
        case True
        then obtain p where p: "filePreview fm = Some p" "p \<noteq> []"
          by (cases "filePreview fm") auto
        from a obtain msg where "fetch_data_url w p = BlobRejected msg"
          by (cases "fetch_data_url w p") auto
        with Inr Some a p assms(1) show ?thesis
          by (simp add: uploadStep_preview_rejected)
      qed
    qed
  qed
qed

subsection \<open>Dispatching a creation request\<close>

lemma dispatch_posts:
  "webhook_posts after = [] \<Longrightarrow>
     webhook_posts (snd (snd (dispatch w st u b clear after))) = [(u, b)]"
  by (simp add: dispatch_def Let_def split: FetchResult.splits option.splits)

lemma dispatch_not_ok:
  assumes "fetch w u b = Responded r" and "\<not> ok r"
  shows "dispatch w st u b clear after =
           (st\<lparr>loading := False\<rparr>, [],
            [Call (HttpPost u b),
             Notify ErrorToast
               (''Error: '' @ ''Webhook failed ('' @ string_of_nat (status r) @ ''): ''
                  @ text_body r)])"
  using assms by (simp add: dispatch_def Let_def)

lemma dispatch_success:
  assumes "fetch w u b = Responded r" and "ok r" and "json_error r = None"
  shows "dispatch w st u b clear after =
           (st\<lparr>loading := False\<rparr>, clear,
            [Call (HttpPost u b),
             Notify SuccessToast ''Video request submitted! Check dashboard in a few moments.'']
            @ after)"
  using assms by (simp add: dispatch_def Let_def)

lemma handleSubmit_threw:
  assumes "js_or (n8nGenerateWebhook (settings st)) (n8nPostWebhook (settings st)) \<noteq> []"
    and "uploadStep w (settings st) fm = Inl thrown"
  shows "handleSubmit w st fm
           = (st\<lparr>loading := False\<rparr>, [], [Notify ErrorToast (''Error: '' @ thrown)])"
  using assms by (simp add: handleSubmit_def Let_def)

lemma handleSubmit_configured:
  assumes "js_or (n8nGenerateWebhook (settings st)) (n8nPostWebhook (settings st)) = u"
    and "u \<noteq> []"
    and "uploadStep w (settings st) fm = Inr (url, upl)"
  shows "handleSubmit w st fm =
           (case dispatch w st u (AdJson (buildPayload w fm url))
                   [SetPrompt [], SetProductName [], SetProductDescription [],
                    SetFile None, SetFilePreview None]
                   [LocalStorageRemove ''createAdFormData'', SetTimeout 2000] of
              (st', sets, evs) \<Rightarrow> (st', sets, upl @ evs))"
  using assms by (simp add: handleSubmit_def Let_def split: prod.splits)

lemma handleSubmit_posts:
  assumes "js_or (n8nGenerateWebhook (settings st)) (n8nPostWebhook (settings st)) = u"
    and "u \<noteq> []"
  shows "webhook_posts (snd (snd (handleSubmit w st fm)))
           = (case uploadStep w (settings st) fm of
                Inl thrown \<Rightarrow> []
              | Inr (url, upl) \<Rightarrow> [(u, AdJson (buildPayload w fm url))])"
proof (cases "uploadStep w (settings st) fm")
  case (Inl thrown)
  with assms show ?thesis by (simp add: handleSubmit_threw)
next
  case (Inr res)
  obtain url upl where res: "res = (url, upl)" by (cases res)
  let ?b = "AdJson (buildPayload w fm url) :: 'a Body"
  let ?cl = "[SetPrompt [], SetProductName [], SetProductDescription [],
              SetFile None, SetFilePreview None]"
  let ?af = "[LocalStorageRemove ''createAdFormData'', SetTimeout 2000] :: 'a Event list"
  obtain st' sets evs where d: "dispatch w st u ?b ?cl ?af = (st', sets, evs)"
    by (cases "dispatch w st u ?b ?cl ?af") auto
  have "webhook_posts (snd (snd (dispatch w st u ?b ?cl ?af))) = [(u, ?b)]"
    by (rule dispatch_posts) simp
  with d have "webhook_posts evs = [(u, ?b)]" by simp
  with d Inr res show ?thesis
    by (simp add: handleSubmit_configured [OF assms] uploadStep_no_post)
qed

lemma handleSubmit_upload_request_fails:
  assumes "js_or (n8nGenerateWebhook (settings st)) (n8nPostWebhook (settings st)) = u"
    and "u \<noteq> []"
    and "\<not> isl (getSupabase w (settings st))"
    and "(\<forall>path f. storage_upload w ''ad-files'' path f \<noteq> UploadOk)
         \<or> (file' fm = None \<and> (\<forall>p t. fetch_data_url w p \<noteq> Blob t))"
  shows "webhook_posts (snd (snd (handleSubmit w st fm))) = [(u, AdJson (buildPayload w fm None))]
       \<and> file_url (buildPayload w fm None) = None
       \<and> file_base64 (buildPayload w fm None)
           = (if truthy (filePreview fm) then filePreview fm else None)"
proof -
  from assms(3) uploadStep_threw_iff [of w "settings st" fm]
  obtain url upl where r: "uploadStep w (settings st) fm = Inr (url, upl)"
    by (cases "uploadStep w (settings st) fm") auto
  from uploadStep_request_fails [OF r assms(4)] have "url = None" .
  with r show ?thesis
    by (simp add: handleSubmit_posts [OF assms(1,2)] buildPayload_def)
qed

subsection \<open>Choosing the webhook endpoint\<close>

text \<open>Claim C2. The handlers choose the endpoint as the specification's preference with
  fallback says. Publishing a post sends its one request to the post endpoint when that is
  not blank, otherwise to the generate endpoint. Every webhook request of a creation action
  (in both variants of \<open>handleSubmit\<close>) goes to the generate endpoint when that is not
  blank, otherwise to the post endpoint, and there is exactly one such request unless the
  handler stops before the dispatch: the upload variant when making the client throws in the
  upload step, the URL-only variant when the image URL of its first tab is blank after
  \<open>trim\<close>. When both
  endpoints are blank the handler only shows the error asking to configure a webhook: the
  state is untouched, no setter is called and the trace holds no request at all.\<close>

theorem webhook_endpoint_selection:
  fixes w :: "'i World" and st :: "'i AppState"
  shows "(case spec_publish_endpoint (settings st) of
            None \<Rightarrow>
              handlePostToSocials w st video
                = [Notify ErrorToast ''Please configure at least one n8n webhook in Settings'']
              \<and> calls (handlePostToSocials w st video) = []
          | Some u \<Rightarrow> calls (handlePostToSocials w st video) = [HttpPost u (VideoJson video)])
       \<and> (case spec_creation_endpoint (settings st) of
            None \<Rightarrow>
              handleSubmit w st fm
                = (st, [],
                   [Notify ErrorToast ''Please configure at least one n8n webhook in Settings!''])
              \<and> calls (snd (snd (handleSubmit w st fm))) = []
              \<and> handleSubmitUrl w st fm
                = (st, [],
                   [Notify ErrorToast ''Please configure at least one n8n webhook in Settings!''])
              \<and> calls (snd (snd (handleSubmitUrl w st fm))) = []
          | Some u \<Rightarrow>
              map fst (webhook_posts (snd (snd (handleSubmit w st fm))))
                = (if (file' fm \<noteq> None \<or> truthy (filePreview fm))
                      \<and> isl (getSupabase w (settings st))
                   then [] else [u])
              \<and> map fst (webhook_posts (snd (snd (handleSubmitUrl w st fm))))
                  = (if activeTab fm = Reels \<and> trim (imageUrl fm) = [] then [] else [u]))"
proof (rule conjI)
  show "case spec_publish_endpoint (settings st) of
            None \<Rightarrow>
              handlePostToSocials w st video
                = [Notify ErrorToast ''Please configure at least one n8n webhook in Settings'']
              \<and> calls (handlePostToSocials w st video) = []
          | Some u \<Rightarrow> calls (handlePostToSocials w st video) = [HttpPost u (VideoJson video)]"
    by (auto simp: spec_publish_endpoint_def handlePostToSocials_def js_or_def Let_def
             split: FetchResult.splits)
next
  show "case spec_creation_endpoint (settings st) of
            None \<Rightarrow>
              handleSubmit w st fm
                = (st, [],
                   [Notify ErrorToast ''Please configure at least one n8n webhook in Settings!''])
              \<and> calls (snd (snd (handleSubmit w st fm))) = []
              \<and> handleSubmitUrl w st fm
                = (st, [],
                   [Notify ErrorToast ''Please configure at least one n8n webhook in Settings!''])
              \<and> calls (snd (snd (handleSubmitUrl w st fm))) = []
          | Some u \<Rightarrow>
              map fst (webhook_posts (snd (snd (handleSubmit w st fm))))
                = (if (file' fm \<noteq> None \<or> truthy (filePreview fm))
                      \<and> isl (getSupabase w (settings st))
                   then [] else [u])
              \<and> map fst (webhook_posts (snd (snd (handleSubmitUrl w st fm))))
                  = (if activeTab fm = Reels \<and> trim (imageUrl fm) = [] then [] else [u])"
  proof (cases "spec_creation_endpoint (settings st)")
    case None
    then have "js_or (n8nGenerateWebhook (settings st)) (n8nPostWebhook (settings st)) = []"
      by (auto simp: spec_creation_endpoint_def js_or_def split: if_splits)
    with None show ?thesis
      by (simp add: handleSubmit_def handleSubmitUrl_def)
  next
    case (Some u)
    then have u: "js_or (n8nGenerateWebhook (settings st)) (n8nPostWebhook (settings st)) = u"
      and n: "u \<noteq> []"
      by (auto simp: spec_creation_endpoint_def js_or_def split: if_splits)
    have a: "map fst (webhook_posts (snd (snd (handleSubmit w st fm))))
               = (if (file' fm \<noteq> None \<or> truthy (filePreview fm))
                     \<and> isl (getSupabase w (settings st))
                  then [] else [u])"
    proof (cases "uploadStep w (settings st) fm")
      case (Inl thrown)
      with uploadStep_threw_iff [of w "settings st" fm]
      have "(file' fm \<noteq> None \<or> truthy (filePreview fm)) \<and> isl (getSupabase w (settings st))"
        by blast
      with Inl show ?thesis by (simp add: handleSubmit_posts [OF u n])
    next
      case (Inr res)
      with uploadStep_threw_iff [of w "settings st" fm]
      have "\<not> ((file' fm \<noteq> None \<or> truthy (filePreview fm))
                \<and> isl (getSupabase w (settings st)))"
        by auto
      with Inr show ?thesis
        by (simp add: handleSubmit_posts [OF u n] split: prod.splits)
    qed
    have b: "map fst (webhook_posts (snd (snd (handleSubmitUrl w st fm))))
               = (if activeTab fm = Reels \<and> trim (imageUrl fm) = [] then [] else [u])"
      using u n by (simp add: handleSubmitUrl_def dispatch_posts)
    from Some a b show ?thesis by simp
  qed
qed

theorem webhook_endpoint_selection_witness:
  "calls (handlePostToSocials demo_world demo_state demo_video)
     = [HttpPost ''https://hooks.example/post'' (VideoJson demo_video)]
   \<and> calls (handlePostToSocials demo_world
               (demo_state\<lparr>settings := demo_settings\<lparr>n8nPostWebhook := []\<rparr>\<rparr>) demo_video)
     = [HttpPost ''https://hooks.example/generate'' (VideoJson demo_video)]
   \<and> map fst (webhook_posts (snd (snd (handleSubmit demo_world demo_state demo_form))))
     = [''https://hooks.example/generate'']
   \<and> map fst (webhook_posts (snd (snd (handleSubmit demo_world
               (demo_state\<lparr>settings := demo_settings\<lparr>n8nGenerateWebhook := []\<rparr>\<rparr>) demo_form))))
     = [''https://hooks.example/post'']
   \<and> calls (snd (snd (handleSubmit demo_world
               (demo_state\<lparr>settings := demo_settings\<lparr>n8nGenerateWebhook := [],
                                                          n8nPostWebhook := []\<rparr>\<rparr>) demo_form)))
     = []
   \<and> map fst (webhook_posts (snd (snd (handleSubmitUrl demo_world demo_state
               (demo_form\<lparr>activeTab := Reels, imageUrl := [0xA0, 0x3000]\<rparr>)))))
     = []"
proof -
  let ?noPost = "demo_state\<lparr>settings := demo_settings\<lparr>n8nPostWebhook := []\<rparr>\<rparr>"
  let ?noGen = "demo_state\<lparr>settings := demo_settings\<lparr>n8nGenerateWebhook := []\<rparr>\<rparr>"
  let ?none = "demo_state\<lparr>settings := demo_settings\<lparr>n8nGenerateWebhook := [],
                                                        n8nPostWebhook := []\<rparr>\<rparr>"
  let ?nbsp = "demo_form\<lparr>activeTab := Reels, imageUrl := [0xA0, 0x3000]\<rparr>"
  have p1: "spec_publish_endpoint (settings demo_state) = Some ''https://hooks.example/post''"
    and c1: "spec_creation_endpoint (settings demo_state) = Some ''https://hooks.example/generate''"
    by (simp_all add: spec_publish_endpoint_def spec_creation_endpoint_def demo_state_def
          demo_settings_def)
  have p2: "spec_publish_endpoint (settings ?noPost) = Some ''https://hooks.example/generate''"
    by (simp add: spec_publish_endpoint_def demo_settings_def)
  have c2: "spec_creation_endpoint (settings ?noGen) = Some ''https://hooks.example/post''"
    by (simp add: spec_creation_endpoint_def demo_settings_def)
  have c3: "spec_creation_endpoint (settings ?none) = None"
    by (simp add: spec_creation_endpoint_def demo_settings_def)
  have g1: "\<not> isl (getSupabase demo_world (settings demo_state))"
    and g2: "\<not> isl (getSupabase demo_world (settings ?noGen))"
    by (simp_all add: getSupabase_def demo_state_def demo_settings_def demo_world_def)
  have t: "activeTab ?nbsp = Reels \<and> trim (imageUrl ?nbsp) = []"
    by (simp add: trim_def is_space_def)
  from webhook_endpoint_selection
         [where st = demo_state and w = demo_world and video = demo_video and fm = demo_form]
       p1 c1 g1
  have a: "calls (handlePostToSocials demo_world demo_state demo_video)
             = [HttpPost ''https://hooks.example/post'' (VideoJson demo_video)]
         \<and> map fst (webhook_posts (snd (snd (handleSubmit demo_world demo_state demo_form))))
             = [''https://hooks.example/generate'']"
    by simp
  from webhook_endpoint_selection
         [where st = "?noPost" and w = demo_world and video = demo_video and fm = demo_form] p2
  have b: "calls (handlePostToSocials demo_world ?noPost demo_video)
             = [HttpPost ''https://hooks.example/generate'' (VideoJson demo_video)]"
    by simp
  from webhook_endpoint_selection
         [where st = "?noGen" and w = demo_world and video = demo_video and fm = demo_form] c2 g2
  have c: "map fst (webhook_posts (snd (snd (handleSubmit demo_world ?noGen demo_form))))
             = [''https://hooks.example/post'']"
    by simp
  from webhook_endpoint_selection
         [where st = "?none" and w = demo_world and video = demo_video and fm = demo_form] c3
  have d: "calls (snd (snd (handleSubmit demo_world ?none demo_form))) = []"
    by simp
  from webhook_endpoint_selection
         [where st = demo_state and w = demo_world and video = demo_video and fm = "?nbsp"] c1 t
  have e: "map fst (webhook_posts (snd (snd (handleSubmitUrl demo_world demo_state ?nbsp)))) = []"
    by simp
  from a b c d e show ?thesis by blast
qed

subsection \<open>A webhook that answers with an error status\<close>

text \<open>Claim C8 as stated says that every webhook send, publishing included, fails on an
  error status with an error that carries the status and the body. \<open>handlePostToSocials\<close>
  does not: publishing a post whose media is ready, answered with status 500 and body
  \<open>boom\<close>, shows the fixed message \<open>Failed to post to socials\<close>, which holds neither the
  status nor the body, and the whole trace is the same as for status 404 with another
  body.\<close>

theorem publish_error_omits_status_and_body:
  "\<not> ok (demo_response 500 ''boom'')
   \<and> handlePostToSocials
        (demo_world\<lparr>fetch := (\<lambda>u b. Responded (demo_response 500 ''boom''))\<rparr>)
        demo_state demo_video
       = [Call (HttpPost ''https://hooks.example/post'' (VideoJson demo_video)),
          Notify ErrorToast ''Failed to post to socials'']
   \<and> \<not> sublist (string_of_nat 500) ''Failed to post to socials''
   \<and> \<not> sublist ''boom'' ''Failed to post to socials''
   \<and> handlePostToSocials
        (demo_world\<lparr>fetch := (\<lambda>u b. Responded (demo_response 404 ''missing''))\<rparr>)
        demo_state demo_video
       = handlePostToSocials
        (demo_world\<lparr>fetch := (\<lambda>u b. Responded (demo_response 500 ''boom''))\<rparr>)
        demo_state demo_video"
proof -
  have a: "\<not> ok (demo_response 500 ''boom'')" "\<not> ok (demo_response 404 ''missing'')"
    by (simp_all add: ok_def demo_response_def)
  have s: "string_of_nat 500 = ''500''" by code_simp
  have b: "\<not> sublist ''500'' ''Failed to post to socials''" by code_simp
  have c: "\<not> sublist ''boom'' ''Failed to post to socials''" by code_simp
  have u: "js_or (n8nPostWebhook (settings demo_state)) (n8nGenerateWebhook (settings demo_state))
             = ''https://hooks.example/post''"
    by (simp add: js_or_def demo_state_def demo_settings_def)
  have d: "handlePostToSocials
        (demo_world\<lparr>fetch := (\<lambda>u b. Responded (demo_response 500 ''boom''))\<rparr>)
        demo_state demo_video
      = [Call (HttpPost ''https://hooks.example/post'' (VideoJson demo_video)),
         Notify ErrorToast ''Failed to post to socials'']"
    using a by (simp add: handlePostToSocials_def u Let_def)
  have e: "handlePostToSocials
        (demo_world\<lparr>fetch := (\<lambda>u b. Responded (demo_response 404 ''missing''))\<rparr>)
        demo_state demo_video
      = [Call (HttpPost ''https://hooks.example/post'' (VideoJson demo_video)),
         Notify ErrorToast ''Failed to post to socials'']"
    using a by (simp add: handlePostToSocials_def u Let_def)
  from a b c d e show ?thesis by (simp add: s)
qed

text \<open>Claim C8, amended. Whenever a webhook request that a handler sent is answered with an
  error status, the handler fails at once: that request is its only webhook request, the
  error notification ends its trace, and no success is shown. For a creation
  request (both variants of \<open>handleSubmit\<close>) the message is
  \<open>Error: Webhook failed (status): body\<close>, with the status and the body of the answer; for
  publishing a post it is the fixed text \<open>Failed to post to socials\<close>.\<close>

theorem webhook_error_reporting:
  fixes w :: "'i World" and st :: "'i AppState"
  assumes "fetch w u b = Responded r" and "\<not> ok r"
  shows "((u, b) \<in> set (webhook_posts (snd (snd (handleSubmit w st fm)))) \<longrightarrow>
            (\<exists>pre. snd (snd (handleSubmit w st fm))
                     = pre @ [Call (HttpPost u b),
                              Notify ErrorToast
                                (''Error: Webhook failed ('' @ string_of_nat (status r) @ ''): ''
                                   @ text_body r)]
                   \<and> webhook_posts pre = []
                   \<and> (\<forall>m. (SuccessToast, m) \<notin> set (notifications pre))))
       \<and> ((u, b) \<in> set (webhook_posts (snd (snd (handleSubmitUrl w st fm)))) \<longrightarrow>
            snd (snd (handleSubmitUrl w st fm))
              = [Call (HttpPost u b),
                 Notify ErrorToast
                   (''Error: Webhook failed ('' @ string_of_nat (status r) @ ''): ''
                      @ text_body r)])
       \<and> ((u, b) \<in> set (webhook_posts (handlePostToSocials w st video)) \<longrightarrow>
            handlePostToSocials w st video
              = [Call (HttpPost u b), Notify ErrorToast ''Failed to post to socials''])"
proof (intro conjI impI)
  let ?g = "js_or (n8nGenerateWebhook (settings st)) (n8nPostWebhook (settings st))"
  assume m: "(u, b) \<in> set (webhook_posts (snd (snd (handleSubmit w st fm))))"
  have g: "?g \<noteq> []"
  proof
    assume "?g = []"
    then have "webhook_posts (snd (snd (handleSubmit w st fm))) = []"
      by (simp add: handleSubmit_def)
    with m show False by simp
  qed
  from m obtain url upl where s: "uploadStep w (settings st) fm = Inr (url, upl)"
    by (cases "uploadStep w (settings st) fm") (auto simp: handleSubmit_posts [OF refl g])
  with m have ub: "u = ?g" "b = AdJson (buildPayload w fm url)"
    by (simp_all add: handleSubmit_posts [OF refl g])
  from assms ub have f: "fetch w ?g (AdJson (buildPayload w fm url)) = Responded r" by simp
  have "snd (snd (handleSubmit w st fm))
          = upl @ [Call (HttpPost u b),
                   Notify ErrorToast
                     (''Error: Webhook failed ('' @ string_of_nat (status r) @ ''): ''
                        @ text_body r)]"
    by (simp add: handleSubmit_configured [OF refl g s] dispatch_not_ok [OF f assms(2)] ub)
  moreover have "webhook_posts upl = []" by (rule uploadStep_no_post [OF s])
  moreover have "\<forall>m. (SuccessToast, m) \<notin> set (notifications upl)"
    by (simp add: uploadStep_no_success [OF s])
  ultimately
  show "\<exists>pre. snd (snd (handleSubmit w st fm))
                 = pre @ [Call (HttpPost u b),
                          Notify ErrorToast
                            (''Error: Webhook failed ('' @ string_of_nat (status r) @ ''): ''
                               @ text_body r)]
               \<and> webhook_posts pre = []
               \<and> (\<forall>m. (SuccessToast, m) \<notin> set (notifications pre))"
    by blast
next
  let ?g = "js_or (n8nGenerateWebhook (settings st)) (n8nPostWebhook (settings st))"
  assume m: "(u, b) \<in> set (webhook_posts (snd (snd (handleSubmitUrl w st fm))))"
  have g: "?g \<noteq> []" and v: "\<not> (activeTab fm = Reels \<and> trim (imageUrl fm) = [])"
    using m by (auto simp: handleSubmitUrl_def Let_def split: if_splits)
  from g v have h: "handleSubmitUrl w st fm
      = dispatch w st ?g (AdUrlJson (buildUrlPayload fm))
          [SetPrompt [], SetProductName [], SetProductDescription [],
           SetImageUrl [], SetProductImageUrl [], SetFile None, SetFilePreview None]
          [LocalStorageRemove ''createAdFormData'']"
    by (auto simp: handleSubmitUrl_def Let_def)
  with m have ub: "u = ?g" "b = AdUrlJson (buildUrlPayload fm)"
    by (simp_all add: dispatch_posts)
  from assms ub have f: "fetch w ?g (AdUrlJson (buildUrlPayload fm)) = Responded r" by simp
  show "snd (snd (handleSubmitUrl w st fm))
          = [Call (HttpPost u b),
             Notify ErrorToast
               (''Error: Webhook failed ('' @ string_of_nat (status r) @ ''): '' @ text_body r)]"
    by (simp add: h dispatch_not_ok [OF f assms(2)] ub)
next
  let ?p = "js_or (n8nPostWebhook (settings st)) (n8nGenerateWebhook (settings st))"
  assume m: "(u, b) \<in> set (webhook_posts (handlePostToSocials w st video))"
  then have p: "?p \<noteq> []"
    by (auto simp: handlePostToSocials_def Let_def split: if_splits)
  with m have ub: "u = ?p" "b = VideoJson video"
    by (auto simp: handlePostToSocials_def Let_def split: FetchResult.splits if_splits)
  from assms ub have f: "fetch w ?p (VideoJson video) = Responded r" by simp
  show "handlePostToSocials w st video
          = [Call (HttpPost u b), Notify ErrorToast ''Failed to post to socials'']"
    using p assms(2) by (simp add: handlePostToSocials_def Let_def f ub)
qed

theorem webhook_error_reporting_witness:
  "\<not> ok (demo_response 500 ''boom'')
   \<and> webhook_posts (snd (snd (handleSubmit
        (demo_world\<lparr>fetch := (\<lambda>u b. Responded (demo_response 500 ''boom''))\<rparr>)
        demo_state demo_form)))
       = [(''https://hooks.example/generate'',
           AdJson (buildPayload
             (demo_world\<lparr>fetch := (\<lambda>u b. Responded (demo_response 500 ''boom''))\<rparr>) demo_form
             (Some ''https://db.example/storage/v1/object/public/ad-files/ads/product_1700.png'')))]
   \<and> last (snd (snd (handleSubmit
        (demo_world\<lparr>fetch := (\<lambda>u b. Responded (demo_response 500 ''boom''))\<rparr>)
        demo_state demo_form)))
       = Notify ErrorToast ''Error: Webhook failed (500): boom''
   \<and> snd (snd (handleSubmitUrl
        (demo_world\<lparr>fetch := (\<lambda>u b. Responded (demo_response 500 ''boom''))\<rparr>)
        demo_state demo_form))
       = [Call (HttpPost ''https://hooks.example/generate'' (AdUrlJson (buildUrlPayload demo_form))),
          Notify ErrorToast ''Error: Webhook failed (500): boom'']
   \<and> handlePostToSocials
        (demo_world\<lparr>fetch := (\<lambda>u b. Responded (demo_response 500 ''boom''))\<rparr>)
        demo_state demo_video
       = [Call (HttpPost ''https://hooks.example/post'' (VideoJson demo_video)),
          Notify ErrorToast ''Failed to post to socials'']"
proof -
  let ?w = "demo_world\<lparr>fetch := (\<lambda>u b. Responded (demo_response 500 ''boom''))\<rparr>"
  let ?g = "''https://hooks.example/generate''"
  let ?p = "''https://hooks.example/post''"
  let ?url = "''https://db.example/storage/v1/object/public/ad-files/ads/product_1700.png''"
  let ?b1 = "AdJson (buildPayload ?w demo_form (Some ?url)) :: nat Body"
  let ?b2 = "AdUrlJson (buildUrlPayload demo_form) :: nat Body"
  let ?b3 = "VideoJson demo_video"
  let ?msg = "''Error: Webhook failed (500): boom''"
  have a: "\<And>u b. fetch ?w u b = Responded (demo_response 500 ''boom'')" by simp
  have n: "\<not> ok (demo_response 500 ''boom'')" by (simp add: ok_def demo_response_def)
  have s: "string_of_nat (status (demo_response 500 ''boom'')) = ''500''"
    unfolding demo_response_def by code_simp
  have x: "text_body (demo_response 500 ''boom'') = ''boom''" by (simp add: demo_response_def)
  have g: "js_or (n8nGenerateWebhook (settings demo_state)) (n8nPostWebhook (settings demo_state))
             = ?g"
    and p: "js_or (n8nPostWebhook (settings demo_state)) (n8nGenerateWebhook (settings demo_state))
             = ?p"
    by (simp_all add: js_or_def demo_state_def demo_settings_def)
  have cfg: "getSupabase ?w (settings demo_state)
               = Inr (Some (Client ''https://db.example'' ''anon''))"
    by (simp add: getSupabase_def demo_state_def demo_settings_def demo_world_def)
  have d: "string_of_nat 1700 = ''1700''" by code_simp
  have k: "storageKey ?w Product \<lparr>fname = ''shoe.final.png'', ftype = ''image/png''\<rparr>
             = ''ads/product_1700.png''"
    by (simp add: storageKey_def split_pop_def tab_str_def demo_world_def d)
  have f: "uploadFile ?w Product \<lparr>fname = ''shoe.final.png'', ftype = ''image/png''\<rparr>
             = (Some ?url,
                [Call (StorageUpload ''ad-files'' ''ads/product_1700.png''
                         \<lparr>fname = ''shoe.final.png'', ftype = ''image/png''\<rparr>)])"
    by (simp add: uploadFile_def k Let_def) (simp add: demo_world_def)
  have up: "uploadStep ?w (settings demo_state) demo_form
              = Inr (Some ?url,
                     [Call (StorageUpload ''ad-files'' ''ads/product_1700.png''
                              \<lparr>fname = ''shoe.final.png'', ftype = ''image/png''\<rparr>)])"
    using uploadStep_file [OF cfg, of demo_form "\<lparr>fname = ''shoe.final.png'', ftype = ''image/png''\<rparr>"]
    by (simp add: demo_form_def f)
  have m1: "webhook_posts (snd (snd (handleSubmit ?w demo_state demo_form))) = [(?g, ?b1)]"
    using handleSubmit_posts [OF g, of ?w demo_form] by (simp add: up)
  have m2: "webhook_posts (snd (snd (handleSubmitUrl ?w demo_state demo_form))) = [(?g, ?b2)]"
    using g by (simp add: handleSubmitUrl_def dispatch_posts demo_form_def)
  have m3: "webhook_posts (handlePostToSocials ?w demo_state demo_video) = [(?p, ?b3)]"
    using p n by (simp add: handlePostToSocials_def Let_def)
  note i1 = webhook_error_reporting
              [OF a n, where u = ?g and b = ?b1 and st = demo_state and fm = demo_form]
  note i2 = webhook_error_reporting
              [OF a n, where u = ?g and b = ?b2 and st = demo_state and fm = demo_form]
  note i3 = webhook_error_reporting
              [OF a n, where u = ?p and b = ?b3 and st = demo_state and video = demo_video]
  from i1 m1 obtain pre where "snd (snd (handleSubmit ?w demo_state demo_form))
      = pre @ [Call (HttpPost ?g ?b1),
               Notify ErrorToast
                 (''Error: Webhook failed ('' @ string_of_nat (status (demo_response 500 ''boom''))
                    @ ''): '' @ text_body (demo_response 500 ''boom''))]"
    by auto
  then have h1: "last (snd (snd (handleSubmit ?w demo_state demo_form))) = Notify ErrorToast ?msg"
    unfolding s x by simp
  from i2 m2 have "snd (snd (handleSubmitUrl ?w demo_state demo_form))
      = [Call (HttpPost ?g ?b2),
         Notify ErrorToast
           (''Error: Webhook failed ('' @ string_of_nat (status (demo_response 500 ''boom''))
              @ ''): '' @ text_body (demo_response 500 ''boom''))]"
    by simp
  then have h2: "snd (snd (handleSubmitUrl ?w demo_state demo_form))
      = [Call (HttpPost ?g ?b2), Notify ErrorToast ?msg]"
    unfolding s x by simp
  from i3 m3 have h3: "handlePostToSocials ?w demo_state demo_video
      = [Call (HttpPost ?p ?b3), Notify ErrorToast ''Failed to post to socials'']"
    by simp
  from n m1 h1 h2 h3 show ?thesis by blast
qed

subsection \<open>A client library that refuses the URL\<close>

text \<open>Claim C3. A failure in the upload step should not abort a creation request. The code
  does go on to the webhook, without \<open>file_url\<close> and with the preview as \<open>file_base64\<close>,
  when the upload request or the conversion of the preview fails
  (\<open>handleSubmit_upload_request_fails\<close>) and when the backend settings are blank. But the
  client is made at line 479, inside the outer \<open>try\<close> and before the inner one that guards
  the step: when the client library refuses the backend URL, the exception reaches the outer
  \<open>catch\<close> and the submission ends there. Evaluated with the URL \<open>not a url\<close>, a file chosen
  and a webhook configured: the trace is the one error notification and holds no webhook
  request, where the same form with a missing bucket, or with a blank URL, is dispatched.\<close>

theorem handleSubmit_aborts_on_client_error:
  "getSupabase strict_world (demo_settings\<lparr>supabaseUrl := ''not a url''\<rparr>)
     = Inl ''Invalid supabaseUrl: Must be a valid HTTP or HTTPS URL.''
   \<and> snd (snd (handleSubmit strict_world
        (demo_state\<lparr>settings := demo_settings\<lparr>supabaseUrl := ''not a url''\<rparr>\<rparr>) demo_form))
       = [Notify ErrorToast ''Error: Invalid supabaseUrl: Must be a valid HTTP or HTTPS URL.'']
   \<and> webhook_posts (snd (snd (handleSubmit strict_world
        (demo_state\<lparr>settings := demo_settings\<lparr>supabaseUrl := ''not a url''\<rparr>\<rparr>) demo_form)))
       = []
   \<and> webhook_posts (snd (snd (handleSubmit
        (strict_world\<lparr>storage_upload := (\<lambda>bucket path f. UploadError ''Bucket not found'')\<rparr>)
        demo_state demo_form)))
       = [(''https://hooks.example/generate'',
           AdJson (buildPayload
             (strict_world\<lparr>storage_upload := (\<lambda>bucket path f. UploadError ''Bucket not found'')\<rparr>)
             demo_form None))]
   \<and> webhook_posts (snd (snd (handleSubmit strict_world
        (demo_state\<lparr>settings := demo_settings\<lparr>supabaseUrl := []\<rparr>\<rparr>) demo_form)))
       = [(''https://hooks.example/generate'', AdJson (buildPayload strict_world demo_form None))]"
proof -
  let ?bad = "demo_state\<lparr>settings := demo_settings\<lparr>supabaseUrl := ''not a url''\<rparr>\<rparr>"
  let ?blank = "demo_state\<lparr>settings := demo_settings\<lparr>supabaseUrl := []\<rparr>\<rparr>"
  let ?w = "strict_world\<lparr>storage_upload := (\<lambda>bucket path f. UploadError ''Bucket not found'')\<rparr>"
  let ?g = "''https://hooks.example/generate''"
  let ?e = "''Invalid supabaseUrl: Must be a valid HTTP or HTTPS URL.''"
  have t: "getSupabase strict_world (demo_settings\<lparr>supabaseUrl := ''not a url''\<rparr>) = Inl ?e"
    by (simp add: getSupabase_def strict_world_def demo_settings_def)
  have g1: "js_or (n8nGenerateWebhook (settings ?bad)) (n8nPostWebhook (settings ?bad)) = ?g"
    and g2: "js_or (n8nGenerateWebhook (settings demo_state)) (n8nPostWebhook (settings demo_state))
               = ?g"
    and g3: "js_or (n8nGenerateWebhook (settings ?blank)) (n8nPostWebhook (settings ?blank)) = ?g"
    by (simp_all add: js_or_def demo_state_def demo_settings_def)
  have f: "file' demo_form \<noteq> None" by (simp add: demo_form_def)
  have u1: "uploadStep strict_world (settings ?bad) demo_form = Inl ?e"
    using t f by (simp add: uploadStep_def)
  have a: "snd (snd (handleSubmit strict_world ?bad demo_form))
             = [Notify ErrorToast (''Error: '' @ ?e)]"
    using handleSubmit_threw [of ?bad strict_world demo_form ?e] g1 u1 by simp
  then have b: "webhook_posts (snd (snd (handleSubmit strict_world ?bad demo_form))) = []"
    by simp
  have ok2: "\<not> isl (getSupabase ?w (settings demo_state))"
    by (simp add: getSupabase_def strict_world_def demo_world_def demo_state_def
          demo_settings_def)
  have fl: "(\<forall>path f. storage_upload ?w ''ad-files'' path f \<noteq> UploadOk)
            \<or> (file' demo_form = None \<and> (\<forall>p t. fetch_data_url ?w p \<noteq> Blob t))"
    by simp
  from handleSubmit_upload_request_fails [OF g2 _ ok2 fl]
  have c: "webhook_posts (snd (snd (handleSubmit ?w demo_state demo_form)))
             = [(?g, AdJson (buildPayload ?w demo_form None))]"
    by simp
  have n3: "getSupabase strict_world (demo_settings\<lparr>supabaseUrl := []\<rparr>) = Inr None"
    by (simp add: getSupabase_def)
  have d: "webhook_posts (snd (snd (handleSubmit strict_world ?blank demo_form)))
             = [(?g, AdJson (buildPayload strict_world demo_form None))]"
    using handleSubmit_posts [OF g3, of strict_world demo_form]
    by (simp add: uploadStep_null [OF n3])
  from t a b c d show ?thesis by simp
qed

subsection \<open>The file fields of the payload\<close>

text \<open>Claim C10. In the payload that \<open>handleSubmit\<close> of the upload variant posts,
  \<open>file_url\<close> and \<open>file_base64\<close> are never both set: \<open>file_base64\<close> is set only when no
  storage URL was resolved and a preview exists, and is then the preview; a resolved URL
  means \<open>file_base64\<close> is null. The public URL is resolved by the storage service, which
  the specification describes as resolving a publicly reachable URL: the theorem takes it to
  be a non-empty string (JavaScript treats the empty string like \<open>null\<close> in \<open>!fileUrl\<close>).\<close>

theorem payload_url_excludes_base64:
  fixes w :: "'i World" and st :: "'i AppState"
  assumes "\<forall>bucket path. getPublicUrl w bucket path \<noteq> []"
    and "(u, AdJson p) \<in> set (webhook_posts (snd (snd (handleSubmit w st fm))))"
  shows "\<not> (file_url p \<noteq> None \<and> file_base64 p \<noteq> None)
       \<and> (file_base64 p \<noteq> None \<longrightarrow>
            file_url p = None \<and> truthy (filePreview fm) \<and> file_base64 p = filePreview fm)
       \<and> (file_url p \<noteq> None \<longrightarrow> file_base64 p = None)"
proof -
  let ?g = "js_or (n8nGenerateWebhook (settings st)) (n8nPostWebhook (settings st))"
  have g: "?g \<noteq> []"
  proof
    assume "?g = []"
    then have "webhook_posts (snd (snd (handleSubmit w st fm))) = []"
      by (simp add: handleSubmit_def)
    with assms(2) show False by simp
  qed
  from assms(2) obtain url upl where s: "uploadStep w (settings st) fm = Inr (url, upl)"
    by (cases "uploadStep w (settings st) fm") (auto simp: handleSubmit_posts [OF refl g])
  with assms(2) have p: "p = buildPayload w fm url"
    by (simp add: handleSubmit_posts [OF refl g])
  show ?thesis
  proof (cases url)
    case None
    then show ?thesis by (simp add: p buildPayload_def)
  next
    case (Some x)
    with s uploadStep_url [of w "settings st" fm x upl] assms(1) have "x \<noteq> []" by auto
    with Some show ?thesis by (simp add: p buildPayload_def)
  qed
qed

theorem payload_url_excludes_base64_witness:
  "(\<forall>bucket path. getPublicUrl demo_world bucket path \<noteq> [])
   \<and> webhook_posts (snd (snd (handleSubmit demo_world demo_state demo_form)))
       = [(''https://hooks.example/generate'',
           AdJson (buildPayload demo_world demo_form
             (Some ''https://db.example/storage/v1/object/public/ad-files/ads/product_1700.png'')))]
   \<and> file_url (buildPayload demo_world demo_form
         (Some ''https://db.example/storage/v1/object/public/ad-files/ads/product_1700.png''))
       \<noteq> None
   \<and> file_base64 (buildPayload demo_world demo_form
         (Some ''https://db.example/storage/v1/object/public/ad-files/ads/product_1700.png''))
       = None"
proof -
  let ?url = "''https://db.example/storage/v1/object/public/ad-files/ads/product_1700.png''"
  let ?p = "buildPayload demo_world demo_form (Some ?url)"
  let ?f = "\<lparr>fname = ''shoe.final.png'', ftype = ''image/png''\<rparr>"
  have a: "\<forall>bucket path. getPublicUrl demo_world bucket path \<noteq> []"
    by (simp add: demo_world_def)
  have u: "js_or (n8nGenerateWebhook (settings demo_state)) (n8nPostWebhook (settings demo_state))
             = ''https://hooks.example/generate''"
    by (simp add: js_or_def demo_state_def demo_settings_def)
  have cfg: "getSupabase demo_world (settings demo_state)
               = Inr (Some (Client ''https://db.example'' ''anon''))"
    by (simp add: getSupabase_def demo_state_def demo_settings_def demo_world_def)
  have n: "string_of_nat 1700 = ''1700''" by code_simp
  have k: "storageKey demo_world Product ?f = ''ads/product_1700.png''"
    by (simp add: storageKey_def split_pop_def tab_str_def demo_world_def n)
  have f: "uploadFile demo_world Product ?f
             = (Some ?url, [Call (StorageUpload ''ad-files'' ''ads/product_1700.png'' ?f)])"
    by (simp add: uploadFile_def k Let_def) (simp add: demo_world_def)
  have s: "uploadStep demo_world (settings demo_state) demo_form
             = Inr (Some ?url, [Call (StorageUpload ''ad-files'' ''ads/product_1700.png'' ?f)])"
    using uploadStep_file [OF cfg, of demo_form ?f] by (simp add: demo_form_def f)
  have b: "webhook_posts (snd (snd (handleSubmit demo_world demo_state demo_form)))
             = [(''https://hooks.example/generate'', AdJson ?p)]"
    using handleSubmit_posts [OF u, of demo_world demo_form] by (simp add: s)
  then have m: "(''https://hooks.example/generate'', AdJson ?p)
                  \<in> set (webhook_posts (snd (snd (handleSubmit demo_world demo_state demo_form))))"
    by simp
  have c: "file_url ?p \<noteq> None" by (simp add: buildPayload_def)
  from payload_url_excludes_base64 [OF a m] c have d: "file_base64 ?p = None" by blast
  from a b c d show ?thesis by blast
qed

end
